theory Spec2Isabelle
  imports Main "HOL-Library.AList"
begin

section \<open>JavaScript strings\<close>

text \<open>
  A JavaScript string is modelled as a \<^typ>\<open>string\<close>. ASCII characters are themselves;
  a character outside ASCII is the sequence of its UTF-8 bytes. The operations used by
  \<^verbatim>\<open>factory.js\<close> (\<^verbatim>\<open>endsWith\<close> and \<^verbatim>\<open>substring\<close> with ASCII arguments, comparison with
  an ASCII literal after \<^verbatim>\<open>toLowerCase\<close>) give the same answers on both representations:
  no byte of a multi-byte UTF-8 sequence is an ASCII byte, and no character outside ASCII
  has one of the letters of \<^verbatim>\<open>true\<close> as its lower case.
\<close>

definition endsWith :: "string \<Rightarrow> string \<Rightarrow> bool" where
  "endsWith s searchString =
     (length searchString \<le> length s \<and> drop (length s - length searchString) s = searchString)"

definition toLowerChar :: "char \<Rightarrow> char" where
  "toLowerChar c =
     (case map_of (zip ''ABCDEFGHIJKLMNOPQRSTUVWXYZ'' ''abcdefghijklmnopqrstuvwxyz'') c of
        Some l \<Rightarrow> l
      | None \<Rightarrow> c)"

definition toUpperChar :: "char \<Rightarrow> char" where
  "toUpperChar c =
     (case map_of (zip ''abcdefghijklmnopqrstuvwxyz'' ''ABCDEFGHIJKLMNOPQRSTUVWXYZ'') c of
        Some u \<Rightarrow> u
      | None \<Rightarrow> c)"

definition toLowerCase :: "string \<Rightarrow> string" where
  "toLowerCase s = map toLowerChar s"

text \<open>lodash \<^verbatim>\<open>capitalize\<close>: the string in lower case, its first character in upper case.
  lodash maps case by Unicode; the model maps the ASCII letters and leaves every other
  byte as it is, so it agrees with lodash on ASCII text only. Nothing below depends on
  what \<open>capitalize\<close> returns.\<close>

definition capitalize :: "string \<Rightarrow> string" where
  "capitalize s = (case toLowerCase s of [] \<Rightarrow> [] | c # cs \<Rightarrow> toUpperChar c # cs)"

section \<open>Exception messages and exceptions\<close>

text \<open>The table \<^verbatim>\<open>ExceptionMessages\<close>, verbatim. The double quote is \<open>CHR 0x22\<close>; the
  typographic apostrophe U+2019 of \<^verbatim>\<open>SHEET_NOT_FOUND\<close> is its three UTF-8 bytes.\<close>

definition TOO_MANY_QUADRANTS :: string where
  "TOO_MANY_QUADRANTS =
     ''There are more than 4 quadrant names listed in your data. Check the quadrant column for errors.''"

definition TOO_MANY_RINGS :: string where
  "TOO_MANY_RINGS = ''More than 4 rings.''"

definition MISSING_HEADERS :: string where
  "MISSING_HEADERS =
     ''Document is missing one or more required headers or they are misspelled. '' @
     ''Check that your document contains headers for '' @
     [CHR 0x22] @ ''name'' @ [CHR 0x22] @ '', '' @
     [CHR 0x22] @ ''ring'' @ [CHR 0x22] @ '', '' @
     [CHR 0x22] @ ''quadrant'' @ [CHR 0x22] @ '', '' @
     [CHR 0x22] @ ''isNew'' @ [CHR 0x22] @ '', '' @
     [CHR 0x22] @ ''description'' @ [CHR 0x22] @ ''.''"

definition MISSING_CONTENT :: string where
  "MISSING_CONTENT = ''Document is missing content.''"

definition LESS_THAN_FOUR_QUADRANTS :: string where
  "LESS_THAN_FOUR_QUADRANTS =
     ''There are fewer than 4 quadrant names listed in your data. Check the quadrant column for errors.''"

definition SHEET_NOT_FOUND :: string where
  "SHEET_NOT_FOUND =
     ''We can'' @ [CHR 0xE2, CHR 0x80, CHR 0x99] @ ''t find the URL Sheet you'' @
     [CHR 0xE2, CHR 0x80, CHR 0x99] @ ''ve entered.''"

definition UNAUTHORIZED :: string where
  "UNAUTHORIZED = ''UNAUTHORIZED''"

definition ExceptionMessages :: "string list" where
  "ExceptionMessages =
     [TOO_MANY_QUADRANTS, TOO_MANY_RINGS, MISSING_HEADERS, MISSING_CONTENT,
      LESS_THAN_FOUR_QUADRANTS, SHEET_NOT_FOUND, UNAUTHORIZED]"

text \<open>
  The values that \<^verbatim>\<open>factory.js\<close> throws, catches or receives in an error callback:
  the two exception classes it tests with \<^verbatim>\<open>instanceof\<close>, each with its message; the
  \<^verbatim>\<open>TypeError\<close> of the runtime (a property read or a call on \<^verbatim>\<open>undefined\<close>); the
  \<^verbatim>\<open>URIError\<close> of \<^verbatim>\<open>decodeURIComponent\<close>; and a failed response, of which the code reads
  the \<^verbatim>\<open>status\<close>.
\<close>

datatype exception =
    MalformedDataError string
  | SheetNotFoundError string
  | TypeError
  | URIError
  | ResponseError int

fun status :: "exception \<Rightarrow> int option" where
  "status (ResponseError n) = Some n"
| "status _ = None"

section \<open>The error page\<close>

text \<open>
  \<^verbatim>\<open>plotError\<close> writes three paragraphs into the error container. The second (the FAQ
  hint) and the third (the link back) do not depend on the exception; the model returns
  the first, the message.
\<close>

definition plotError :: "exception \<Rightarrow> string" where
  "plotError exception =
     (let message = ''Oops! We can't find the data'' in
      case exception of
        MalformedDataError m \<Rightarrow> message @ m
      | SheetNotFoundError m \<Rightarrow> m
      | _ \<Rightarrow> message)"

text \<open>
  \<^verbatim>\<open>plotUnauthorizedErrorMessage\<close> takes no exception: its title paragraph is built from
  the address returned by \<^verbatim>\<open>GoogleAuth.geEmail()\<close>.
\<close>

definition unauthorizedMessage :: "string \<Rightarrow> string" where
  "unauthorizedMessage currentUser =
     ''<strong>Oops!</strong> Looks like you are accessing this sheet using <b>'' @ currentUser @
     ''</b>, which does not have permission.Try switching to another account.''"

section \<open>The domain model\<close>

text \<open>
  A sanitized row, as \<^verbatim>\<open>InputSanitizer\<close> hands it to \<^verbatim>\<open>plotRadar\<close>: the fields that
  \<^verbatim>\<open>plotRadar\<close> reads. \<^verbatim>\<open>topic\<close> is optional.
\<close>

record sanitizedBlip =
  row_name :: string
  row_ring :: string
  row_quadrant :: string
  row_isNew :: string
  row_topic :: "string option"
  row_description :: string

text \<open>
  Modelled from the spec: the classes \<^verbatim>\<open>Ring\<close>, \<^verbatim>\<open>Blip\<close>, \<^verbatim>\<open>Quadrant\<close> and \<^verbatim>\<open>Radar\<close> of
  \<^verbatim>\<open>models/\<close> are not among the sources. The records below have the fields of the spec's
  data model; a constructor stores its arguments, \<^verbatim>\<open>add\<close> and \<^verbatim>\<open>addAlternative\<close> append,
  \<^verbatim>\<open>setCurrentSheet\<close> stores.
\<close>

record ring =
  ring_name :: string
  ring_order :: nat

text \<open>The ring of a blip is what \<^verbatim>\<open>ringMap[blip.ring]\<close> evaluates to: \<open>None\<close> is
  \<^verbatim>\<open>undefined\<close>.\<close>

record blip =
  blip_name :: string
  blip_ring :: "ring option"
  blip_isNew :: bool
  blip_topic :: "string option"
  blip_description :: string

definition newBlip :: "(string \<rightharpoonup> ring) \<Rightarrow> sanitizedBlip \<Rightarrow> blip" where
  "newBlip ringMap b =
     \<lparr>blip_name = row_name b,
      blip_ring = ringMap (row_ring b),
      blip_isNew = (toLowerCase (row_isNew b) = ''true''),
      blip_topic = row_topic b,
      blip_description = row_description b\<rparr>"

record quadrant =
  quadrant_name :: string
  quadrant_blips :: "blip list"

definition Quadrant :: "string \<Rightarrow> quadrant" where
  "Quadrant n = \<lparr>quadrant_name = n, quadrant_blips = []\<rparr>"

definition add :: "quadrant \<Rightarrow> blip \<Rightarrow> quadrant" where
  "add q b = q\<lparr>quadrant_blips := quadrant_blips q @ [b]\<rparr>"

record radar =
  radar_quadrants :: "quadrant list"
  radar_currentSheet :: "string option"
  radar_alternatives :: "string list"

definition addAlternative :: "radar \<Rightarrow> string \<Rightarrow> radar" where
  "addAlternative r sheetName = r\<lparr>radar_alternatives := radar_alternatives r @ [sheetName]\<rparr>"

definition setCurrentSheet :: "radar \<Rightarrow> string option \<Rightarrow> radar" where
  "setCurrentSheet r sheetName = r\<lparr>radar_currentSheet := sheetName\<rparr>"

text \<open>
  Modelled from the spec: \<^verbatim>\<open>models/radar.js\<close> (the constructor \<^verbatim>\<open>Radar\<close> and its method
  \<^verbatim>\<open>addQuadrant\<close>) is not among the sources. The spec's builder, after grouping, asserts
  that exactly four quadrants exist: fewer than four fail with
  \<^verbatim>\<open>LESS_THAN_FOUR_QUADRANTS\<close>, more than four with \<^verbatim>\<open>TOO_MANY_QUADRANTS\<close>, and four give a
  radar that owns them, with no alternative sheet and no current sheet yet. The function
  stands for lines 57 to 60 of \<^verbatim>\<open>plotRadar\<close>: \<^verbatim>\<open>new Radar()\<close> followed by one
  \<^verbatim>\<open>addQuadrant\<close> for each quadrant.
\<close>

definition addQuadrants :: "quadrant list \<Rightarrow> exception + radar" where
  "addQuadrants qs =
     (if length qs < 4 then Inl (MalformedDataError LESS_THAN_FOUR_QUADRANTS)
      else if 4 < length qs then Inl (MalformedDataError TOO_MANY_QUADRANTS)
      else Inr \<lparr>radar_quadrants = qs, radar_currentSheet = None, radar_alternatives = []\<rparr>)"

section \<open>Objects used as dictionaries\<close>

text \<open>
  \<^verbatim>\<open>quadrants\<close> is a plain object: its own properties, in the order of their creation,
  are an association list. A read \<^verbatim>\<open>quadrants[key]\<close> of a key that is not an own property
  goes on to \<^verbatim>\<open>Object.prototype\<close>, whose properties are all truthy and none of which has a
  method \<^verbatim>\<open>add\<close>.
\<close>

definition objectPrototypeKeys :: "string list" where
  "objectPrototypeKeys =
     [''constructor'', ''hasOwnProperty'', ''isPrototypeOf'', ''propertyIsEnumerable'',
      ''toLocaleString'', ''toString'', ''valueOf'', ''__proto__'',
      ''__defineGetter__'', ''__defineSetter__'', ''__lookupGetter__'', ''__lookupSetter__'']"

datatype 'v property = Own 'v | Inherited | Undefined

definition getProperty :: "(string \<times> 'v) list \<Rightarrow> string \<Rightarrow> 'v property" where
  "getProperty obj key =
     (case map_of obj key of
        Some v \<Rightarrow> Own v
      | None \<Rightarrow> if key \<in> set objectPrototypeKeys then Inherited else Undefined)"

text \<open>
  The order in which \<^verbatim>\<open>_.each\<close> visits the own properties of an object is that of
  \<^verbatim>\<open>Object.keys\<close>: the keys that are array indices (canonical decimal numerals below
  \<open>2\<^sup>3\<^sup>2 - 1\<close>) in ascending numeric order, then the others in the order of their creation.
\<close>

definition digit :: "char \<Rightarrow> int" where
  "digit c = (case map_of (zip ''0123456789'' [0, 1, 2, 3, 4, 5, 6, 7, 8, 9]) c of
                Some d \<Rightarrow> d
              | None \<Rightarrow> 0)"

definition decimal :: "string \<Rightarrow> int" where
  "decimal s = foldl (\<lambda>n c. 10 * n + digit c) 0 s"

definition isArrayIndex :: "string \<Rightarrow> bool" where
  "isArrayIndex s =
     (s \<noteq> [] \<and> (\<forall>c \<in> set s. c \<in> set ''0123456789'') \<and> (s = ''0'' \<or> hd s \<noteq> CHR ''0'') \<and>
      decimal s < 2 ^ 32 - 1)"

definition ownProperties :: "(string \<times> 'v) list \<Rightarrow> (string \<times> 'v) list" where
  "ownProperties obj =
     sort_key (\<lambda>p. decimal (fst p)) (filter (\<lambda>p. isArrayIndex (fst p)) obj) @
     filter (\<lambda>p. \<not> isArrayIndex (fst p)) obj"

section \<open>plotRadar\<close>

text \<open>
  lodash \<^verbatim>\<open>uniqBy\<close>: the elements are visited in order, and an element is kept when the
  value of the iteratee on it has not been seen yet.
\<close>

fun baseUniq :: "('a \<Rightarrow> 'k) \<Rightarrow> 'a list \<Rightarrow> 'k list \<Rightarrow> 'a list \<Rightarrow> 'a list" where
  "baseUniq iteratee [] seen result = result"
| "baseUniq iteratee (x # xs) seen result =
     (if iteratee x \<in> set seen then baseUniq iteratee xs seen result
      else baseUniq iteratee xs (seen @ [iteratee x]) (result @ [x]))"

definition uniqBy :: "'a list \<Rightarrow> ('a \<Rightarrow> 'k) \<Rightarrow> 'a list" where
  "uniqBy array iteratee = baseUniq iteratee array [] []"

definition maxRings :: nat where
  "maxRings = 4"

text \<open>
  The first loop of \<^verbatim>\<open>plotRadar\<close>, over the ring names with their indices.
  \<^verbatim>\<open>ringMap\<close> is only ever read with \<^verbatim>\<open>ringMap[blip.ring]\<close>, after every ring name of
  the rows has been assigned, so a finite map says all that the code observes of it.
\<close>

fun each_ring :: "string list \<Rightarrow> nat \<Rightarrow> (string \<rightharpoonup> ring) \<Rightarrow> exception + (string \<rightharpoonup> ring)" where
  "each_ring [] i ringMap = Inr ringMap"
| "each_ring (ringName # rings) i ringMap =
     (if i = maxRings then Inl (MalformedDataError TOO_MANY_RINGS)
      else each_ring rings (Suc i) (ringMap(ringName \<mapsto> \<lparr>ring_name = ringName, ring_order = i\<rparr>)))"

definition buildRingMap :: "sanitizedBlip list \<Rightarrow> exception + (string \<rightharpoonup> ring)" where
  "buildRingMap blips = each_ring (map row_ring (uniqBy blips row_ring)) 0 Map.empty"

text \<open>
  The second loop, over the rows. The guard \<^verbatim>\<open>!quadrants[blip.quadrant]\<close> creates the
  quadrant when the read is \<^verbatim>\<open>undefined\<close>; the call of \<^verbatim>\<open>add\<close> that follows is a
  \<^verbatim>\<open>TypeError\<close> when the read gives an inherited property.
\<close>

fun each_blip ::
  "(string \<rightharpoonup> ring) \<Rightarrow> sanitizedBlip list \<Rightarrow> (string \<times> quadrant) list \<Rightarrow>
     exception + (string \<times> quadrant) list" where
  "each_blip ringMap [] quadrants = Inr quadrants"
| "each_blip ringMap (b # bs) quadrants =
     (let quadrants1 =
        (case getProperty quadrants (row_quadrant b) of
           Undefined \<Rightarrow>
             AList.update (row_quadrant b) (Quadrant (capitalize (row_quadrant b))) quadrants
         | _ \<Rightarrow> quadrants)
      in case getProperty quadrants1 (row_quadrant b) of
           Own q \<Rightarrow>
             each_blip ringMap bs
               (AList.update (row_quadrant b) (add q (newBlip ringMap b)) quadrants1)
         | _ \<Rightarrow> Inl TypeError)"

definition stripExtensions :: "string \<Rightarrow> string" where
  "stripExtensions title =
     (let title1 = (if endsWith title ''.csv'' then take (length title - 4) title else title)
      in if endsWith title1 ''.json'' then take (length title1 - 5) title1 else title1)"

text \<open>
  What \<^verbatim>\<open>plotRadar\<close> hands over: the document title it sets and the radar it gives to
  \<^verbatim>\<open>GraphingRadar\<close> (the size of the drawing, computed from the height of the window, is
  left to the rendering). An exception leaves \<^verbatim>\<open>plotRadar\<close> before anything is drawn; the
  title, which the source assigns first, is kept for the calls that reach the drawing.
  \<^verbatim>\<open>currentRadarName\<close> is \<open>None\<close> when the argument is \<^verbatim>\<open>undefined\<close>.
\<close>

record plot =
  plot_title :: string
  plot_radar :: radar

definition plotRadar ::
  "string \<Rightarrow> sanitizedBlip list \<Rightarrow> string option \<Rightarrow> string list \<Rightarrow> exception + plot" where
  "plotRadar title blips currentRadarName alternativeRadars =
     (case buildRingMap blips of
        Inl e \<Rightarrow> Inl e
      | Inr ringMap \<Rightarrow>
          (case each_blip ringMap blips [] of
             Inl e \<Rightarrow> Inl e
           | Inr quadrants \<Rightarrow>
               (case addQuadrants (map snd (ownProperties quadrants)) of
                  Inl e \<Rightarrow> Inl e
                | Inr radar \<Rightarrow>
                    Inr \<lparr>plot_title = stripExtensions title,
                         plot_radar =
                           setCurrentSheet (foldl addAlternative radar alternativeRadars)
                             currentRadarName\<rparr>)))"

section \<open>Collaborators and effects\<close>

text \<open>
  The collaborators of \<^verbatim>\<open>factory.js\<close> that are not among the sources are parameters of
  the model, collected in one record:
  \<^item> \<open>decodeURIComponent\<close>, the function of the platform; \<open>None\<close> is its \<^verbatim>\<open>URIError\<close>;
  \<^item> \<open>verifyContent\<close> and \<open>verifyHeaders\<close>, the two checks of a \<^verbatim>\<open>ContentValidator\<close>
    built on the given column names; \<open>Some e\<close> is the exception the check throws;
  \<^item> \<open>sanitize\<close> and \<open>sanitizeForProtectedSheet\<close>, the two methods of \<^verbatim>\<open>InputSanitizer\<close>;
  \<^item> \<open>geEmail\<close>, the address \<^verbatim>\<open>GoogleAuth.geEmail()\<close> returns;
  \<^item> \<open>loginCompletes force\<close>, whether \<^verbatim>\<open>GoogleAuth.login\<close>, called with this
    \<^verbatim>\<open>force\<close>, obtains a token and calls back.
  A row of a CSV or JSON source is the list of its properties, key and value, in the
  order of \<^verbatim>\<open>Object.keys\<close>; a row of a sheet is the list of its cells.
\<close>

type_synonym rawRow = "(string \<times> string) list"

record env =
  decodeURIComponent :: "string \<Rightarrow> string option"
  verifyContent :: "string list \<Rightarrow> exception option"
  verifyHeaders :: "string list \<Rightarrow> exception option"
  sanitize :: "rawRow \<Rightarrow> sanitizedBlip"
  sanitizeForProtectedSheet :: "string list \<Rightarrow> string list \<Rightarrow> sanitizedBlip"
  geEmail :: string
  loginCompletes :: "bool \<Rightarrow> bool"

text \<open>
  What a run does is the list of its calls to collaborators and to the presentation
  functions, in the order of the calls. \<open>PlotRadar title\<close> is the call of \<^verbatim>\<open>plotRadar\<close>,
  in which the radar is constructed, and \<open>GraphingRadar p\<close> the hand-over at its end; \<open>PlotErrorMessage e\<close> and \<open>PlotUnauthorizedErrorMessage user\<close> are the two
  error pages; \<open>Validate\<close>, \<open>LoadGoogle\<close>, \<open>Login force\<close> and \<open>ProcessSheetResponse\<close> are the
  requests to \<^verbatim>\<open>Sheet\<close> and \<^verbatim>\<open>GoogleAuth\<close>; \<open>Callback\<close> is the call of the optional
  third argument of \<^verbatim>\<open>authenticate\<close>.
\<close>

datatype event =
    VerifyContent "string list"
  | VerifyHeaders "string list"
  | Sanitize rawRow
  | SanitizeForProtectedSheet "string list" "string list"
  | PlotRadar string
  | GraphingRadar plot
  | PlotErrorMessage exception
  | PlotUnauthorizedErrorMessage string
  | Validate "string option"
  | LoadGoogle
  | Login bool
  | ProcessSheetResponse "string option" "string option"
  | Callback

fun isSanitize :: "event \<Rightarrow> bool" where
  "isSanitize (Sanitize _) = True"
| "isSanitize (SanitizeForProtectedSheet _ _) = True"
| "isSanitize _ = False"

fun isPlotRadar :: "event \<Rightarrow> bool" where
  "isPlotRadar (PlotRadar _) = True"
| "isPlotRadar (GraphingRadar _) = True"
| "isPlotRadar _ = False"

fun isLogin :: "event \<Rightarrow> bool" where
  "isLogin (Login _) = True"
| "isLogin _ = False"

section \<open>CSV and JSON documents\<close>

text \<open>
  \<^verbatim>\<open>FileName\<close>: the regular expression \<^verbatim>\<open>([^\\/]+)$\<close> matches the longest suffix of the
  decoded text without slash and backslash, when that suffix is not empty; with no match
  the function returns its argument undecoded.
\<close>

definition replacePlus :: "string \<Rightarrow> string" where
  "replacePlus url = map (\<lambda>c. if c = CHR ''+'' then CHR '' '' else c) url"

definition isSeparator :: "char \<Rightarrow> bool" where
  "isSeparator c = (c = CHR 0x5C \<or> c = CHR ''/'')"

definition FileName :: "env \<Rightarrow> string \<Rightarrow> exception + string" where
  "FileName env url =
     (case decodeURIComponent env (replacePlus url) of
        None \<Rightarrow> Inl URIError
      | Some decoded \<Rightarrow>
          (let str = rev (takeWhile (\<lambda>c. \<not> isSeparator c) (rev decoded))
           in if str \<noteq> [] then Inr str else Inr url))"

text \<open>
  The part of both \<^verbatim>\<open>createBlips\<close> after the column names are known. The whole of it is
  inside \<^verbatim>\<open>try\<close>: an exception ends it and goes to \<^verbatim>\<open>plotErrorMessage\<close>.
\<close>

definition createBlips :: "env \<Rightarrow> string \<Rightarrow> string list \<Rightarrow> rawRow list \<Rightarrow> string \<Rightarrow> event list" where
  "createBlips env url columnNames data currentRadarName =
     VerifyContent columnNames #
     (case verifyContent env columnNames of
        Some e \<Rightarrow> [PlotErrorMessage e]
      | None \<Rightarrow>
          VerifyHeaders columnNames #
          (case verifyHeaders env columnNames of
             Some e \<Rightarrow> [PlotErrorMessage e]
           | None \<Rightarrow>
               map Sanitize data @
               (case FileName env url of
                  Inl e \<Rightarrow> [PlotErrorMessage e]
                | Inr fileName \<Rightarrow>
                    PlotRadar fileName #
                    (case plotRadar fileName (map (sanitize env) data) (Some currentRadarName) [] of
                       Inl e \<Rightarrow> [PlotErrorMessage e]
                     | Inr p \<Rightarrow> [GraphingRadar p]))))"

text \<open>The result of \<^verbatim>\<open>d3.csv\<close> is the array of rows with the property \<^verbatim>\<open>columns\<close>.\<close>

definition CSVDocument_createBlips :: "env \<Rightarrow> string \<Rightarrow> string list \<times> rawRow list \<Rightarrow> event list" where
  "CSVDocument_createBlips env url data = createBlips env url (fst data) (snd data) ''CSV File''"

text \<open>\<^verbatim>\<open>Object.keys(data[0])\<close> is a \<^verbatim>\<open>TypeError\<close> on an empty array.\<close>

definition JSONFile_createBlips :: "env \<Rightarrow> string \<Rightarrow> rawRow list \<Rightarrow> event list" where
  "JSONFile_createBlips env url data =
     (case data of
        [] \<Rightarrow> [PlotErrorMessage TypeError]
      | first # _ \<Rightarrow> createBlips env url (map fst first) data ''JSON File'')"

section \<open>Google sheets\<close>

text \<open>A value is falsy when it is \<^verbatim>\<open>undefined\<close>, \<^verbatim>\<open>null\<close> or the empty string.\<close>

fun truthy :: "string option \<Rightarrow> bool" where
  "truthy None = False"
| "truthy (Some s) = (s \<noteq> [])"

fun toString :: "string option \<Rightarrow> string" where
  "toString None = ''undefined''"
| "toString (Some s) = s"

text \<open>
  The loop \<^verbatim>\<open>values.forEach\<close> of \<^verbatim>\<open>createBlipsForProtectedSheet\<close>: one validator on
  \<^verbatim>\<open>values[0]\<close>, and its two checks, for every element of \<^verbatim>\<open>values\<close>. The result is the
  calls made and the exception that ended the loop, if any.
\<close>

fun forEach_verify :: "env \<Rightarrow> string list \<Rightarrow> 'a list \<Rightarrow> event list \<times> exception option" where
  "forEach_verify env header [] = ([], None)"
| "forEach_verify env header (v # vs) =
     (case verifyContent env header of
        Some e \<Rightarrow> ([VerifyContent header], Some e)
      | None \<Rightarrow>
          (case verifyHeaders env header of
             Some e \<Rightarrow> ([VerifyContent header, VerifyHeaders header], Some e)
           | None \<Rightarrow>
               (case forEach_verify env header vs of
                  (evs, r) \<Rightarrow> (VerifyContent header # VerifyHeaders header # evs, r))))"

text \<open>
  \<^verbatim>\<open>createBlipsForProtectedSheet\<close> has no \<^verbatim>\<open>try\<close>: the second component of the result is
  the exception that leaves it. \<^verbatim>\<open>sheetNames[0]\<close> of an empty array is \<^verbatim>\<open>undefined\<close>.
  \<open>sheetName1\<close> is the variable \<^verbatim>\<open>sheetName\<close> of the enclosing \<^verbatim>\<open>GoogleSheet\<close> after the
  assignment of the default.
\<close>

definition createBlipsForProtectedSheet ::
  "env \<Rightarrow> string option \<Rightarrow> string \<Rightarrow> string list list \<Rightarrow> string list \<Rightarrow>
     event list \<times> exception option" where
  "createBlipsForProtectedSheet env sheetName documentTitle values sheetNames =
     (let sheetName1 =
            (if \<not> truthy sheetName then (case sheetNames of [] \<Rightarrow> None | n # _ \<Rightarrow> Some n)
             else sheetName);
          title = documentTitle @ '' - '' @ toString sheetName1
      in case values of
           [] \<Rightarrow>
             (case plotRadar title [] sheetName1 sheetNames of
                Inl e \<Rightarrow> ([PlotRadar title], Some e)
              | Inr p \<Rightarrow> ([PlotRadar title, GraphingRadar p], None))
         | header # all \<Rightarrow>
             (case forEach_verify env header values of
                (evs, Some e) \<Rightarrow> (evs, Some e)
              | (evs, None) \<Rightarrow>
                  (let evs1 = evs @ map (\<lambda>blip. SanitizeForProtectedSheet blip header) all @
                              [PlotRadar title];
                       blips = map (\<lambda>blip. sanitizeForProtectedSheet env blip header) all
                   in case plotRadar title blips sheetName1 sheetNames of
                        Inl e \<Rightarrow> (evs1, Some e)
                      | Inr p \<Rightarrow> (evs1 @ [GraphingRadar p], None))))"

text \<open>
  The error callback that \<^verbatim>\<open>authenticate\<close> gives to \<^verbatim>\<open>processSheetResponse\<close>, the same in
  both of its branches.
\<close>

definition handleError :: "env \<Rightarrow> exception \<Rightarrow> event list" where
  "handleError env error =
     (if status error = Some 403 then [PlotUnauthorizedErrorMessage (geEmail env)]
      else [PlotErrorMessage error])"

text \<open>
  \<^verbatim>\<open>authenticate\<close>, up to the request for the sheet: the answer to the request arrives
  later, at \<^verbatim>\<open>createBlipsForProtectedSheet\<close> or at the error callback. The last argument
  says whether a callback was given. \<^verbatim>\<open>GoogleAuth.loadGoogle\<close> is taken to call back.
\<close>

definition authenticate ::
  "env \<Rightarrow> string option \<Rightarrow> string option \<Rightarrow> bool \<Rightarrow> bool \<Rightarrow> bool \<Rightarrow> event list" where
  "authenticate env sheetReference sheetName force apiKeyEnabled callback =
     (if \<not> apiKeyEnabled then
        LoadGoogle # Login force #
        (if loginCompletes env force
         then ProcessSheetResponse sheetReference sheetName # (if callback then [Callback] else [])
         else [])
      else
        LoadGoogle # ProcessSheetResponse sheetReference sheetName #
        (if callback then [Callback] else []))"

text \<open>
  \<^verbatim>\<open>GoogleSheet.build\<close>, given the two arguments with which \<^verbatim>\<open>sheet.validate\<close> calls back.
\<close>

definition GoogleSheet_build ::
  "env \<Rightarrow> string option \<Rightarrow> string option \<Rightarrow> exception option \<times> bool \<Rightarrow> event list" where
  "GoogleSheet_build env sheetReference sheetName validated =
     Validate sheetReference #
     (case validated of
        (Some (SheetNotFoundError m), apiKeyEnabled) \<Rightarrow> [PlotErrorMessage (SheetNotFoundError m)]
      | (_, apiKeyEnabled) \<Rightarrow> authenticate env sheetReference sheetName False apiKeyEnabled False)"

text \<open>
  Modelled from the spec: \<^verbatim>\<open>util/sheet.js\<close> (\<^verbatim>\<open>Sheet.validate\<close>) is not among the sources.
  The spec's existence probe answers without authentication: when the document exists
  the callback gets no error, otherwise it gets a \<^verbatim>\<open>SheetNotFoundError\<close> with the message
  \<^verbatim>\<open>SHEET_NOT_FOUND\<close>; the second argument says whether an API key is configured.
\<close>

definition validate :: "bool \<Rightarrow> bool \<Rightarrow> exception option \<times> bool" where
  "validate documentExists apiKeyEnabled =
     (if documentExists then None else Some (SheetNotFoundError SHEET_NOT_FOUND), apiKeyEnabled)"

text \<open>
  The parameters that \<^verbatim>\<open>QueryParams\<close> extracts from the address, and the handler of the
  button \<^verbatim>\<open>SWITCH ACCOUNT\<close> of the unauthorized page: a new \<^verbatim>\<open>GoogleSheet\<close> on the same
  parameters, \<^verbatim>\<open>authenticate(true, false, callback)\<close>.
\<close>

record queryParams =
  sheetId :: "string option"
  sheetName :: "string option"

definition switchAccount :: "env \<Rightarrow> queryParams \<Rightarrow> event list" where
  "switchAccount env params = authenticate env (sheetId params) (sheetName params) True False True"

section \<open>Resolution of the source\<close>

text \<open>
  \<^verbatim>\<open>GoogleSheetInput.build\<close>. \<open>domainName\<close> is the value of \<^verbatim>\<open>DomainName\<close> on the query
  string, \<open>None\<close> for \<^verbatim>\<open>null\<close>. The result is the document object that is built, the
  entry page (with the form drawn when the feature toggle is off), or the \<^verbatim>\<open>TypeError\<close>
  of \<^verbatim>\<open>queryParams.sheetId.endsWith\<close> on a missing \<^verbatim>\<open>sheetId\<close>.
\<close>

datatype input =
    CSVDocument string
  | JSONFile string
  | GoogleSheet string "string option"
  | EntryPage bool
  | Throw exception

definition GoogleSheetInput_build :: "bool \<Rightarrow> string option \<Rightarrow> queryParams \<Rightarrow> input" where
  "GoogleSheetInput_build UIRefresh2022 domainName params =
     (case domainName of
        None \<Rightarrow> EntryPage (\<not> UIRefresh2022)
      | Some domain \<Rightarrow>
          if domain = [] then EntryPage (\<not> UIRefresh2022)
          else
            (case sheetId params of
               None \<Rightarrow> Throw TypeError
             | Some sheet \<Rightarrow>
                 if endsWith sheet ''.csv'' then CSVDocument sheet
                 else if endsWith sheet ''.json'' then JSONFile sheet
                 else if endsWith domain ''google.com'' \<and> sheet \<noteq> []
                   then GoogleSheet sheet (sheetName params)
                 else EntryPage (\<not> UIRefresh2022)))"

section \<open>Sample inputs\<close>

text \<open>
  The rows of the spec's scenarios, and collaborators with which the runs can be evaluated:
  a validator that requires the five headers, sanitizers that read the fields by their
  names, and, for \<open>decodeURIComponent\<close>, the identity, which is what the function is on a
  text without a percent sign.
\<close>

definition sampleRow :: "string \<Rightarrow> string \<Rightarrow> string \<Rightarrow> sanitizedBlip" where
  "sampleRow n r q =
     \<lparr>row_name = n, row_ring = r, row_quadrant = q, row_isNew = ''true'', row_topic = None,
      row_description = []\<rparr>"

definition scenarioA :: "sanitizedBlip list" where
  "scenarioA =
     [sampleRow ''a'' ''Adopt'' ''Tools'', sampleRow ''b'' ''Trial'' ''Techniques'',
      sampleRow ''c'' ''Adopt'' ''Platforms'', sampleRow ''d'' ''Trial'' ''Languages'',
      sampleRow ''e'' ''Trial'' ''Tools'']"

definition scenarioB :: "sanitizedBlip list" where
  "scenarioB =
     [sampleRow ''a'' ''Adopt'' ''Tools'', sampleRow ''b'' ''Trial'' ''Techniques'',
      sampleRow ''c'' ''Adopt'' ''Platforms'']"

definition scenarioC :: "sanitizedBlip list" where
  "scenarioC =
     [sampleRow ''a'' ''Adopt'' ''Tools'', sampleRow ''b'' ''Trial'' ''Tools'',
      sampleRow ''c'' ''Assess'' ''Tools'', sampleRow ''d'' ''Hold'' ''Tools'',
      sampleRow ''e'' ''Retire'' ''Tools'']"

definition fiveQuadrants :: "sanitizedBlip list" where
  "fiveQuadrants =
     [sampleRow ''a'' ''Adopt'' ''Tools'', sampleRow ''b'' ''Trial'' ''Techniques'',
      sampleRow ''c'' ''Adopt'' ''Platforms'', sampleRow ''d'' ''Trial'' ''Languages'',
      sampleRow ''e'' ''Trial'' ''People'']"

definition field :: "rawRow \<Rightarrow> string \<Rightarrow> string" where
  "field row key = (case map_of row key of Some v \<Rightarrow> v | None \<Rightarrow> [])"

definition cell :: "string list \<Rightarrow> string list \<Rightarrow> string \<Rightarrow> string" where
  "cell row header key = field (zip header row) key"

definition requiredHeaders :: "string list" where
  "requiredHeaders = [''name'', ''ring'', ''quadrant'', ''isNew'', ''description'']"

definition sampleEnv :: env where
  "sampleEnv =
     \<lparr>decodeURIComponent = Some,
      verifyContent =
        (\<lambda>columnNames. if columnNames = [] then Some (MalformedDataError MISSING_CONTENT) else None),
      verifyHeaders =
        (\<lambda>columnNames. if set requiredHeaders \<subseteq> set columnNames then None
                        else Some (MalformedDataError MISSING_HEADERS)),
      sanitize =
        (\<lambda>row. \<lparr>row_name = field row ''name'', row_ring = field row ''ring'',
                 row_quadrant = field row ''quadrant'', row_isNew = field row ''isNew'',
                 row_topic = map_of row ''topic'', row_description = field row ''description''\<rparr>),
      sanitizeForProtectedSheet =
        (\<lambda>row header. \<lparr>row_name = cell row header ''name'', row_ring = cell row header ''ring'',
                        row_quadrant = cell row header ''quadrant'',
                        row_isNew = cell row header ''isNew'',
                        row_topic = map_of (zip header row) ''topic'',
                        row_description = cell row header ''description''\<rparr>),
      geEmail = ''user@example.com'',
      loginCompletes = (\<lambda>force. True)\<rparr>"

definition sampleRaw :: "string \<Rightarrow> string \<Rightarrow> string \<Rightarrow> rawRow" where
  "sampleRaw n r q =
     [(''name'', n), (''ring'', r), (''quadrant'', q), (''isNew'', ''TRUE''), (''description'', [])]"

definition sampleData :: "rawRow list" where
  "sampleData =
     [sampleRaw ''a'' ''Adopt'' ''Tools'', sampleRaw ''b'' ''Trial'' ''Techniques'',
      sampleRaw ''c'' ''Adopt'' ''Platforms'', sampleRaw ''d'' ''Trial'' ''Languages'']"

definition sampleValues :: "string list list" where
  "sampleValues =
     [requiredHeaders,
      [''a'', ''Adopt'', ''Tools'', ''TRUE'', []], [''b'', ''Trial'', ''Techniques'', ''false'', []],
      [''c'', ''Adopt'', ''Platforms'', ''TRUE'', []], [''d'', ''Trial'', ''Languages'', ''TRUE'', []]]"

text \<open>The titles of the radars handed over in a run.\<close>

definition titles :: "event list \<Rightarrow> string list" where
  "titles evs = concat (map (\<lambda>ev. case ev of GraphingRadar p \<Rightarrow> [plot_title p] | _ \<Rightarrow> []) evs)"

text \<open>The distinct values of a list in the order of their first occurrence.\<close>

fun firstSeen :: "'a list \<Rightarrow> 'a list" where
  "firstSeen [] = []"
| "firstSeen (x # xs) = x # firstSeen (filter (\<lambda>y. y \<noteq> x) xs)"

text \<open>The blips built from the rows of one quadrant value, in the order of the rows.\<close>

definition grouped :: "(string \<rightharpoonup> ring) \<Rightarrow> sanitizedBlip list \<Rightarrow> string \<Rightarrow> blip list" where
  "grouped rm bs k = map (newBlip rm) (filter (\<lambda>b. row_quadrant b = k) bs)"

section \<open>Properties of the string operations\<close>

lemma toLowerChar_t: "toLowerChar c = CHR ''t'' \<longleftrightarrow> c = CHR ''t'' \<or> c = CHR ''T''"
  unfolding toLowerChar_def by (auto split: if_splits)

lemma toLowerChar_r: "toLowerChar c = CHR ''r'' \<longleftrightarrow> c = CHR ''r'' \<or> c = CHR ''R''"
  unfolding toLowerChar_def by (auto split: if_splits)

lemma toLowerChar_u: "toLowerChar c = CHR ''u'' \<longleftrightarrow> c = CHR ''u'' \<or> c = CHR ''U''"
  unfolding toLowerChar_def by (auto split: if_splits)

lemma toLowerChar_e: "toLowerChar c = CHR ''e'' \<longleftrightarrow> c = CHR ''e'' \<or> c = CHR ''E''"
  unfolding toLowerChar_def by (auto split: if_splits)

lemma toLowerCase_true:
  "toLowerCase s = ''true'' \<longleftrightarrow>
     (\<exists>a b c d. s = [a, b, c, d] \<and> a \<in> {CHR ''t'', CHR ''T''} \<and> b \<in> {CHR ''r'', CHR ''R''} \<and>
        c \<in> {CHR ''u'', CHR ''U''} \<and> d \<in> {CHR ''e'', CHR ''E''})"
  (is "?L \<longleftrightarrow> ?R")
proof
  assume h: ?L
  have "length s = 4"
  proof -
    from h have "length (toLowerCase s) = 4" by simp
    then show ?thesis by (simp add: toLowerCase_def)
  qed
  then obtain a b c d where s: "s = [a, b, c, d]"
    by (auto simp: numeral_eq_Suc length_Suc_conv)
  with h show ?R
    by (simp add: toLowerCase_def toLowerChar_t toLowerChar_r toLowerChar_u toLowerChar_e)
next
  assume ?R
  then obtain a b c d where "s = [a, b, c, d]"
    and "a = CHR ''t'' \<or> a = CHR ''T''" and "b = CHR ''r'' \<or> b = CHR ''R''"
    and "c = CHR ''u'' \<or> c = CHR ''U''" and "d = CHR ''e'' \<or> d = CHR ''E''"
    by auto
  then show ?L
    by (simp add: toLowerCase_def toLowerChar_t toLowerChar_r toLowerChar_u toLowerChar_e)
qed

section \<open>Rings and quadrants\<close>

lemma set_firstSeen: "set (firstSeen xs) = set xs"
  by (induction xs rule: firstSeen.induct) auto

lemma distinct_firstSeen: "distinct (firstSeen xs)"
  by (induction xs rule: firstSeen.induct) (auto simp: set_firstSeen)

lemma length_firstSeen: "length (firstSeen xs) = card (set xs)"
  by (metis distinct_card distinct_firstSeen set_firstSeen)

lemma takeWhile_filter_commute:
  "(\<And>a. \<not> P a \<Longrightarrow> Q a) \<Longrightarrow> takeWhile P (filter Q xs) = filter Q (takeWhile P xs)"
  by (induction xs) auto

lemma takeWhile_firstSeen:
  "takeWhile (\<lambda>y. y \<noteq> r) (firstSeen xs) = firstSeen (takeWhile (\<lambda>y. y \<noteq> r) xs)"
proof (induction xs rule: firstSeen.induct)
  case 1
  then show ?case by simp
next
  case (2 x xs)
  show ?case
  proof (cases "x = r")
    case True
    then show ?thesis by simp
  next
    case False
    have "takeWhile (\<lambda>y. y \<noteq> r) (filter (\<lambda>y. y \<noteq> x) xs) = filter (\<lambda>y. y \<noteq> x) (takeWhile (\<lambda>y. y \<noteq> r) xs)"
      using False by (intro takeWhile_filter_commute) auto
    with 2 False show ?thesis by simp
  qed
qed

lemma baseUniq_firstSeen:
  "seen = map f result \<Longrightarrow>
   map f (baseUniq f xs seen result) =
     seen @ firstSeen (filter (\<lambda>k. k \<notin> set seen) (map f xs))"
proof (induction xs arbitrary: seen result)
  case Nil
  then show ?case by simp
next
  case (Cons x xs)
  show ?case
  proof (cases "f x \<in> set seen")
    case True
    with Cons show ?thesis by simp
  next
    case False
    have eq: "(\<lambda>k. k \<notin> set (seen @ [f x])) = (\<lambda>k. k \<noteq> f x \<and> k \<notin> set seen)" by auto
    from Cons.prems have "seen @ [f x] = map f (result @ [x])" by simp
    from Cons.IH [OF this] False show ?thesis
      by (simp add: eq conj_commute)
  qed
qed

lemma uniqBy_firstSeen: "map f (uniqBy xs f) = firstSeen (map f xs)"
  by (simp add: uniqBy_def baseUniq_firstSeen)

lemma each_ring_overflow:
  "i \<le> maxRings \<Longrightarrow> maxRings < i + length rings \<Longrightarrow>
   each_ring rings i m = Inl (MalformedDataError TOO_MANY_RINGS)"
  by (induction rings arbitrary: i m) auto

lemma each_ring_ok:
  "distinct rings \<Longrightarrow> i + length rings \<le> maxRings \<Longrightarrow>
   each_ring rings i m =
     Inr (\<lambda>k. if k \<in> set rings
               then Some \<lparr>ring_name = k, ring_order = i + length (takeWhile (\<lambda>y. y \<noteq> k) rings)\<rparr>
               else m k)"
proof (induction rings arbitrary: i m)
  case Nil
  then show ?case by simp
next
  case (Cons r rings)
  from Cons.prems have "i \<noteq> maxRings" by auto
  moreover from Cons.prems have "distinct rings" "Suc i + length rings \<le> maxRings" "r \<notin> set rings" by auto
  ultimately show ?case
    using Cons.IH [of "Suc i"] by (auto simp: fun_eq_iff)
qed


lemma takeWhile_index_image:
  "distinct us \<Longrightarrow> (\<lambda>r. length (takeWhile (\<lambda>y. y \<noteq> r) us)) ` set us = {0 ..< length us}"
proof (induction us)
  case Nil
  then show ?case by simp
next
  case (Cons u us)
  then have IH: "(\<lambda>r. length (takeWhile (\<lambda>y. y \<noteq> r) us)) ` set us = {0 ..< length us}"
    and nin: "u \<notin> set us" by auto
  have "(\<lambda>r. length (takeWhile (\<lambda>y. y \<noteq> r) (u # us))) ` set us =
        (\<lambda>r. Suc (length (takeWhile (\<lambda>y. y \<noteq> r) us))) ` set us"
    using nin by (intro image_cong) auto
  also have "\<dots> = Suc ` ((\<lambda>r. length (takeWhile (\<lambda>y. y \<noteq> r) us)) ` set us)"
    by (simp only: image_image)
  also have "\<dots> = Suc ` {0 ..< length us}"
    by (simp only: IH)
  finally have "(\<lambda>r. length (takeWhile (\<lambda>y. y \<noteq> r) (u # us))) ` set us = {1 ..< Suc (length us)}"
    by (simp add: image_Suc_atLeastLessThan)
  then show ?case by (auto simp: atLeastLessThanSuc)
qed

lemma buildRingMap_ok:
  assumes "card (row_ring ` set blips) \<le> 4"
  shows "buildRingMap blips =
     Inr (\<lambda>k. if k \<in> row_ring ` set blips
               then Some \<lparr>ring_name = k,
                          ring_order = card (set (takeWhile (\<lambda>y. y \<noteq> k) (map row_ring blips)))\<rparr>
               else None)"
proof -
  let ?us = "firstSeen (map row_ring blips)"
  have d: "distinct ?us" by (rule distinct_firstSeen)
  have l: "0 + length ?us \<le> maxRings"
    using assms by (simp add: length_firstSeen maxRings_def)
  have "length (takeWhile (\<lambda>y. y \<noteq> k) ?us) = card (set (takeWhile (\<lambda>y. y \<noteq> k) (map row_ring blips)))" for k
    by (simp add: takeWhile_firstSeen length_firstSeen)
  then show ?thesis
    unfolding buildRingMap_def uniqBy_firstSeen each_ring_ok [OF d l]
    by (simp add: set_firstSeen fun_eq_iff)
qed

lemma buildRingMap_overflow:
  assumes "4 < card (row_ring ` set blips)"
  shows "buildRingMap blips = Inl (MalformedDataError TOO_MANY_RINGS)"
  unfolding buildRingMap_def uniqBy_firstSeen
  using assms by (intro each_ring_overflow) (simp_all add: length_firstSeen maxRings_def)


lemma getProperty_Own: "getProperty obj k = Own v \<longleftrightarrow> map_of obj k = Some v"
  by (auto simp: getProperty_def split: option.splits)

lemma getProperty_Undefined:
  "getProperty obj k = Undefined \<longleftrightarrow> map_of obj k = None \<and> k \<notin> set objectPrototypeKeys"
  by (auto simp: getProperty_def split: option.splits)

lemma getProperty_Inherited:
  "getProperty obj k = Inherited \<longleftrightarrow> map_of obj k = None \<and> k \<in> set objectPrototypeKeys"
  by (auto simp: getProperty_def split: option.splits)

lemma map_of_None_iff: "map_of obj k = None \<longleftrightarrow> k \<notin> fst ` set obj"
  by (simp add: map_of_eq_None_iff)

lemma each_blip_TypeError:
  "\<exists>b \<in> set bs. row_quadrant b \<in> set objectPrototypeKeys \<and> row_quadrant b \<notin> fst ` set qs \<Longrightarrow>
   each_blip rm bs qs = Inl TypeError"
proof (induction bs arbitrary: qs)
  case Nil
  then show ?case by simp
next
  case (Cons b bs)
  show ?case
  proof (cases "getProperty qs (row_quadrant b)")
    case (Own q)
    then have k: "row_quadrant b \<in> fst ` set qs"
      by (metis getProperty_Own map_of_None_iff option.distinct(1))
    from Cons.prems obtain b' where b': "b' \<in> set (b # bs)"
      "row_quadrant b' \<in> set objectPrototypeKeys" "row_quadrant b' \<notin> fst ` set qs" by blast
    from k b'(3) have ne: "row_quadrant b' \<noteq> row_quadrant b" by metis
    with b'(1) have "b' \<in> set bs" by auto
    note this ne
    with b' have "\<exists>b' \<in> set bs. row_quadrant b' \<in> set objectPrototypeKeys \<and>
        row_quadrant b' \<notin> fst ` set (AList.update (row_quadrant b) (add q (newBlip rm b)) qs)"
      by (intro bexI [of _ b']) (simp_all add: dom_update)
    from Cons.IH [OF this] Own show ?thesis by simp
  next
    case Inherited
    then show ?thesis by simp
  next
    case Undefined
    let ?qs1 = "AList.update (row_quadrant b) (Quadrant (capitalize (row_quadrant b))) qs"
    let ?q = "Quadrant (capitalize (row_quadrant b))"
    have own: "getProperty ?qs1 (row_quadrant b) = Own ?q"
      by (simp add: getProperty_Own update_conv')
    from Undefined have nk: "row_quadrant b \<notin> set objectPrototypeKeys"
      by (simp add: getProperty_Undefined)
    from Cons.prems obtain b' where b': "b' \<in> set (b # bs)"
      "row_quadrant b' \<in> set objectPrototypeKeys" "row_quadrant b' \<notin> fst ` set qs" by blast
    from nk b'(2) have ne: "row_quadrant b' \<noteq> row_quadrant b" by metis
    with b'(1) have "b' \<in> set bs" by auto
    note this ne
    with b' have "\<exists>b' \<in> set bs. row_quadrant b' \<in> set objectPrototypeKeys \<and>
        row_quadrant b' \<notin> fst ` set (AList.update (row_quadrant b) (add ?q (newBlip rm b)) ?qs1)"
      by (intro bexI [of _ b']) (simp_all add: dom_update)
    from Cons.IH [OF this] Undefined own show ?thesis by simp
  qed
qed

lemma each_blip_ok:
  "distinct (map fst qs) \<Longrightarrow>
   \<forall>b \<in> set bs. row_quadrant b \<in> set objectPrototypeKeys \<longrightarrow> row_quadrant b \<in> fst ` set qs \<Longrightarrow>
   \<exists>qs'. each_blip rm bs qs = Inr qs' \<and> distinct (map fst qs') \<and>
         fst ` set qs' = fst ` set qs \<union> row_quadrant ` set bs"
proof (induction bs arbitrary: qs)
  case Nil
  then show ?case by simp
next
  case (Cons b bs)
  show ?case
  proof (cases "getProperty qs (row_quadrant b)")
    case (Own q)
    let ?qs2 = "AList.update (row_quadrant b) (add q (newBlip rm b)) qs"
    from Own have k: "row_quadrant b \<in> fst ` set qs"
      by (metis getProperty_Own map_of_None_iff option.distinct(1))
    have d: "distinct (map fst ?qs2)" using Cons.prems(1) by (rule distinct_update)
    have keys: "fst ` set ?qs2 = fst ` set qs" using k by (auto simp: dom_update)
    have "\<forall>b' \<in> set bs. row_quadrant b' \<in> set objectPrototypeKeys \<longrightarrow> row_quadrant b' \<in> fst ` set ?qs2"
      using Cons.prems(2) keys by auto
    from Cons.IH [OF d this] obtain qs' where
      "each_blip rm bs ?qs2 = Inr qs'" "distinct (map fst qs')"
      "fst ` set qs' = fst ` set ?qs2 \<union> row_quadrant ` set bs" by blast
    with Own keys k show ?thesis by auto
  next
    case Inherited
    with Cons.prems(2) show ?thesis
      by (auto simp: getProperty_Inherited map_of_None_iff)
  next
    case Undefined
    let ?q = "Quadrant (capitalize (row_quadrant b))"
    let ?qs1 = "AList.update (row_quadrant b) ?q qs"
    let ?qs2 = "AList.update (row_quadrant b) (add ?q (newBlip rm b)) ?qs1"
    have own: "getProperty ?qs1 (row_quadrant b) = Own ?q"
      by (simp add: getProperty_Own update_conv')
    have d: "distinct (map fst ?qs2)"
      using Cons.prems(1) by (intro distinct_update)
    have keys: "fst ` set ?qs2 = insert (row_quadrant b) (fst ` set qs)"
      by (auto simp: dom_update)
    have "\<forall>b' \<in> set bs. row_quadrant b' \<in> set objectPrototypeKeys \<longrightarrow> row_quadrant b' \<in> fst ` set ?qs2"
      using Cons.prems(2) keys by auto
    from Cons.IH [OF d this] obtain qs' where
      "each_blip rm bs ?qs2 = Inr qs'" "distinct (map fst qs')"
      "fst ` set qs' = fst ` set ?qs2 \<union> row_quadrant ` set bs" by blast
    with Undefined own keys show ?thesis by auto
  qed
qed

lemma foldl_addAlternative:
  "radar_quadrants (foldl addAlternative r alts) = radar_quadrants r \<and>
   radar_currentSheet (foldl addAlternative r alts) = radar_currentSheet r \<and>
   radar_alternatives (foldl addAlternative r alts) = radar_alternatives r @ alts"
  by (induction alts arbitrary: r) (simp_all add: addAlternative_def)

lemma length_ownProperties: "length (ownProperties obj) = length obj"
  by (simp add: ownProperties_def sum_length_filter_compl)

lemma each_blip_groups:
  assumes "\<forall>b \<in> set bs. row_quadrant b \<notin> set objectPrototypeKeys"
  shows "\<exists>qs'. each_blip rm bs [] = Inr qs' \<and> length qs' = card (row_quadrant ` set bs)"
proof -
  from each_blip_ok [of "[]" bs rm] assms obtain qs' where
    r: "each_blip rm bs [] = Inr qs'" and d: "distinct (map fst qs')"
    and k: "fst ` set qs' = row_quadrant ` set bs" by auto
  have "length qs' = length (map fst qs')" by simp
  also have "\<dots> = card (set (map fst qs'))" using d by (simp only: distinct_card)
  also have "\<dots> = card (row_quadrant ` set bs)" using k by simp
  finally show ?thesis using r by blast
qed

lemma plotRadar_Inr:
  assumes "plotRadar title blips currentRadarName alternativeRadars = Inr p"
  shows "plot_title p = stripExtensions title"
    and "radar_currentSheet (plot_radar p) = currentRadarName"
    and "radar_alternatives (plot_radar p) = alternativeRadars"
    and "length (radar_quadrants (plot_radar p)) = 4"
  using assms
  by (auto simp: plotRadar_def addQuadrants_def setCurrentSheet_def foldl_addAlternative
      split: sum.splits if_splits)

lemma plotRadar_four:
  assumes rings: "card (row_ring ` set blips) \<le> 4"
    and keys: "\<forall>b \<in> set blips. row_quadrant b \<notin> set objectPrototypeKeys"
    and four: "card (row_quadrant ` set blips) = 4"
  shows "\<exists>p. plotRadar title blips currentRadarName alternativeRadars = Inr p"
proof -
  from buildRingMap_ok [OF rings] obtain rm where rm: "buildRingMap blips = Inr rm" by blast
  from each_blip_groups [OF keys, of rm] obtain qs where
    qs: "each_blip rm blips [] = Inr qs" and len: "length qs = card (row_quadrant ` set blips)"
    by blast
  have n: "length (map snd (ownProperties qs)) = 4"
    by (simp add: length_ownProperties len four)
  show ?thesis
    using n by (simp add: plotRadar_def rm qs addQuadrants_def)
qed

lemma each_blip_map_of:
  "each_blip rm bs qs = Inr qs' \<Longrightarrow>
   map_of qs' k =
     (case map_of qs k of
        Some q \<Rightarrow> Some (q\<lparr>quadrant_blips := quadrant_blips q @ grouped rm bs k\<rparr>)
      | None \<Rightarrow>
          if k \<in> row_quadrant ` set bs
          then Some \<lparr>quadrant_name = capitalize k, quadrant_blips = grouped rm bs k\<rparr>
          else None)"
proof (induction bs arbitrary: qs)
  case Nil
  then show ?case by (auto simp: grouped_def split: option.splits)
next
  case (Cons b bs)
  let ?kb = "row_quadrant b"
  let ?qs1 = "case getProperty qs ?kb of
                Undefined \<Rightarrow> AList.update ?kb (Quadrant (capitalize ?kb)) qs
              | _ \<Rightarrow> qs"
  from Cons.prems obtain q where own: "getProperty ?qs1 ?kb = Own q"
    and rest: "each_blip rm bs (AList.update ?kb (add q (newBlip rm b)) ?qs1) = Inr qs'"
    by (cases "getProperty ?qs1 ?kb") (simp_all add: Let_def)
  note IH = Cons.IH [OF rest]
  have "q = (case map_of qs ?kb of Some q0 \<Rightarrow> q0 | None \<Rightarrow> Quadrant (capitalize ?kb)) \<and>
        map_of ?qs1 k = (if k = ?kb then Some q else map_of qs k)"
  proof (cases "getProperty qs ?kb")
    case (Own q0)
    then have "?qs1 = qs" by simp
    with own Own have "q = q0" by simp
    moreover from Own have "map_of qs ?kb = Some q0" by (simp add: getProperty_Own)
    ultimately show ?thesis using \<open>?qs1 = qs\<close> by simp
  next
    case Inherited
    then have "?qs1 = qs" by simp
    with own Inherited show ?thesis by simp
  next
    case Undefined
    then have e: "?qs1 = AList.update ?kb (Quadrant (capitalize ?kb)) qs" by simp
    from own have "q = Quadrant (capitalize ?kb)"
      unfolding e by (simp add: getProperty_Own update_conv')
    moreover from Undefined have "map_of qs ?kb = None" by (simp add: getProperty_Undefined)
    ultimately show ?thesis unfolding e by (simp add: update_conv')
  qed
  then have q: "q = (case map_of qs ?kb of Some q0 \<Rightarrow> q0 | None \<Rightarrow> Quadrant (capitalize ?kb))"
    and m1: "map_of ?qs1 k = (if k = ?kb then Some q else map_of qs k)"
    by simp_all
  show ?case
  proof (cases "k = ?kb")
    case True
    with IH m1 q show ?thesis
      by (auto simp: update_conv' grouped_def add_def Quadrant_def split: option.splits)
  next
    case False
    with IH m1 show ?thesis
      by (auto simp: update_conv' grouped_def split: option.splits)
  qed
qed

lemma each_blip_distinct:
  assumes "each_blip rm bs [] = Inr qs'"
  shows "distinct (map fst qs') \<and> fst ` set qs' = row_quadrant ` set bs"
proof -
  have "\<not> (\<exists>b \<in> set bs. row_quadrant b \<in> set objectPrototypeKeys \<and> row_quadrant b \<notin> fst ` set [])"
    using each_blip_TypeError [of bs "[]" rm] assms by auto
  then have "\<forall>b \<in> set bs. row_quadrant b \<in> set objectPrototypeKeys \<longrightarrow> row_quadrant b \<in> fst ` set []"
    by blast
  from each_blip_ok [OF _ this, of rm] assms show ?thesis by auto
qed

lemma set_ownProperties: "set (ownProperties obj) = set obj"
  by (auto simp: ownProperties_def)

lemma each_blip_quadrants:
  assumes "each_blip rm bs [] = Inr qs'"
  shows "set (map snd (ownProperties qs')) =
           (\<lambda>k. \<lparr>quadrant_name = capitalize k, quadrant_blips = grouped rm bs k\<rparr>) `
             row_quadrant ` set bs"
proof -
  let ?Q = "\<lambda>k. \<lparr>quadrant_name = capitalize k, quadrant_blips = grouped rm bs k\<rparr>"
  from each_blip_distinct [OF assms] have d: "distinct (map fst qs')"
    and keys: "fst ` set qs' = row_quadrant ` set bs" by simp_all
  have m: "map_of qs' k = (if k \<in> row_quadrant ` set bs then Some (?Q k) else None)" for k
    using each_blip_map_of [OF assms, of k] by simp
  have "set qs' = (\<lambda>k. (k, ?Q k)) ` row_quadrant ` set bs"
  proof (intro set_eqI iffI)
    fix x assume x: "x \<in> set qs'"
    obtain k q where kq: "x = (k, q)" by (cases x)
    with x d have "map_of qs' k = Some q" by simp
    with m [of k] have "k \<in> row_quadrant ` set bs" "q = ?Q k" by (auto split: if_splits)
    with kq show "x \<in> (\<lambda>k. (k, ?Q k)) ` row_quadrant ` set bs" by blast
  next
    fix x assume "x \<in> (\<lambda>k. (k, ?Q k)) ` row_quadrant ` set bs"
    then obtain k where k: "k \<in> row_quadrant ` set bs" "x = (k, ?Q k)" by blast
    with m [of k] have "map_of qs' k = Some (?Q k)" by simp
    then have "(k, ?Q k) \<in> set qs'" by (rule map_of_SomeD)
    with k show "x \<in> set qs'" by simp
  qed
  then show ?thesis
    by (simp add: set_ownProperties image_image)
qed

lemma plotRadar_quadrants:
  assumes "plotRadar title blips currentRadarName alternativeRadars = Inr p"
  shows "\<exists>ringMap. buildRingMap blips = Inr ringMap \<and>
           set (radar_quadrants (plot_radar p)) =
             (\<lambda>k. \<lparr>quadrant_name = capitalize k, quadrant_blips = grouped ringMap blips k\<rparr>) `
               row_quadrant ` set blips"
proof -
  from assms obtain rm qs radar where rm: "buildRingMap blips = Inr rm"
    and qs: "each_blip rm blips [] = Inr qs"
    and r: "addQuadrants (map snd (ownProperties qs)) = Inr radar"
    and p: "p = \<lparr>plot_title = stripExtensions title,
                  plot_radar = setCurrentSheet (foldl addAlternative radar alternativeRadars)
                                 currentRadarName\<rparr>"
    by (auto simp: plotRadar_def split: sum.splits)
  from r have "radar_quadrants radar = map snd (ownProperties qs)"
    by (auto simp: addQuadrants_def split: if_splits)
  with p have "radar_quadrants (plot_radar p) = map snd (ownProperties qs)"
    by (simp add: setCurrentSheet_def foldl_addAlternative)
  with each_blip_quadrants [OF qs] rm show ?thesis by simp
qed

lemma each_blip_Inl: "each_blip rm bs qs = Inl e \<Longrightarrow> e = TypeError"
proof (induction bs arbitrary: qs)
  case Nil
  then show ?case by simp
next
  case (Cons b bs)
  let ?kb = "row_quadrant b"
  let ?qs1 = "case getProperty qs ?kb of
                Undefined \<Rightarrow> AList.update ?kb (Quadrant (capitalize ?kb)) qs
              | _ \<Rightarrow> qs"
  show ?case
  proof (cases "getProperty ?qs1 ?kb")
    case (Own q)
    with Cons.prems have "each_blip rm bs (AList.update ?kb (add q (newBlip rm b)) ?qs1) = Inl e"
      by (simp add: Let_def)
    then show ?thesis by (rule Cons.IH)
  next
    case Inherited
    with Cons.prems show ?thesis by (simp add: Let_def)
  next
    case Undefined
    with Cons.prems show ?thesis by (simp add: Let_def)
  qed
qed

lemma plotRadar_not_rings:
  assumes "card (row_ring ` set blips) \<le> 4"
  shows "plotRadar title blips currentRadarName alternativeRadars \<noteq>
           Inl (MalformedDataError TOO_MANY_RINGS)"
proof
  assume f: "plotRadar title blips currentRadarName alternativeRadars =
           Inl (MalformedDataError TOO_MANY_RINGS)"
  from buildRingMap_ok [OF assms] obtain rm where rm: "buildRingMap blips = Inr rm" by blast
  show False
  proof (cases "each_blip rm blips []")
    case (Inl e)
    then have "e = TypeError" by (rule each_blip_Inl)
    with f rm Inl show False by (simp add: plotRadar_def)
  next
    case (Inr qs)
    with f rm show False
      by (simp add: plotRadar_def addQuadrants_def TOO_MANY_RINGS_def
          LESS_THAN_FOUR_QUADRANTS_def TOO_MANY_QUADRANTS_def split: if_splits)
  qed
qed

lemma plotRadar_rings:
  assumes p: "plotRadar title blips currentRadarName alternativeRadars = Inr p"
  shows "card (row_ring ` set blips) \<le> 4"
    and "set (radar_quadrants (plot_radar p)) =
      (\<lambda>k. \<lparr>quadrant_name = capitalize k,
             quadrant_blips =
               map (\<lambda>b. \<lparr>blip_name = row_name b,
                         blip_ring =
                           Some \<lparr>ring_name = row_ring b,
                                 ring_order =
                                   card (set (takeWhile (\<lambda>x. x \<noteq> row_ring b)
                                                (map row_ring blips)))\<rparr>,
                         blip_isNew = (toLowerCase (row_isNew b) = ''true''),
                         blip_topic = row_topic b,
                         blip_description = row_description b\<rparr>)
                 (filter (\<lambda>b. row_quadrant b = k) blips)\<rparr>) `
        row_quadrant ` set blips"
proof -
  from plotRadar_quadrants [OF p] obtain rm where rm: "buildRingMap blips = Inr rm"
    and q: "set (radar_quadrants (plot_radar p)) =
             (\<lambda>k. \<lparr>quadrant_name = capitalize k, quadrant_blips = grouped rm blips k\<rparr>) `
               row_quadrant ` set blips"
    by (elim exE conjE)
  show le: "card (row_ring ` set blips) \<le> 4"
  proof (rule ccontr)
    assume "\<not> card (row_ring ` set blips) \<le> 4"
    then have "4 < card (row_ring ` set blips)" by simp
    from buildRingMap_overflow [OF this] rm show False by simp
  qed
  from buildRingMap_ok [OF le] rm have rm_eq:
    "rm = (\<lambda>k. if k \<in> row_ring ` set blips
               then Some \<lparr>ring_name = k,
                          ring_order = card (set (takeWhile (\<lambda>y. y \<noteq> k) (map row_ring blips)))\<rparr>
               else None)"
    by simp
  have g: "grouped rm blips k =
      map (\<lambda>b. \<lparr>blip_name = row_name b,
                         blip_ring =
                           Some \<lparr>ring_name = row_ring b,
                                 ring_order =
                                   card (set (takeWhile (\<lambda>x. x \<noteq> row_ring b)
                                                (map row_ring blips)))\<rparr>,
                         blip_isNew = (toLowerCase (row_isNew b) = ''true''),
                         blip_topic = row_topic b,
                         blip_description = row_description b\<rparr>)
                 (filter (\<lambda>b. row_quadrant b = k) blips)" for k
    unfolding grouped_def
    by (rule map_cong [OF refl]) (simp add: newBlip_def rm_eq)
  show "set (radar_quadrants (plot_radar p)) =
      (\<lambda>k. \<lparr>quadrant_name = capitalize k,
             quadrant_blips =
               map (\<lambda>b. \<lparr>blip_name = row_name b,
                         blip_ring =
                           Some \<lparr>ring_name = row_ring b,
                                 ring_order =
                                   card (set (takeWhile (\<lambda>x. x \<noteq> row_ring b)
                                                (map row_ring blips)))\<rparr>,
                         blip_isNew = (toLowerCase (row_isNew b) = ''true''),
                         blip_topic = row_topic b,
                         blip_description = row_description b\<rparr>)
                 (filter (\<lambda>b. row_quadrant b = k) blips)\<rparr>) `
        row_quadrant ` set blips"
    unfolding q by (simp only: g)
qed

lemma first_seen_bound:
  assumes "r \<in> set ys"
  shows "card (set (takeWhile (\<lambda>x. x \<noteq> r) ys)) < card (set ys)"
proof -
  have "set (takeWhile (\<lambda>x. x \<noteq> r) ys) \<subseteq> set ys - {r}"
    by (auto dest: set_takeWhileD)
  then have "card (set (takeWhile (\<lambda>x. x \<noteq> r) ys)) \<le> card (set ys - {r})"
    by (intro card_mono) simp_all
  also from assms have "\<dots> < card (set ys)"
    by (intro card_Diff1_less) simp_all
  finally show ?thesis .
qed

lemma plotRadar_blip_rings:
  assumes p: "plotRadar title blips currentRadarName alternativeRadars = Inr p"
    and q: "q \<in> set (radar_quadrants (plot_radar p))"
    and bl: "bl \<in> set (quadrant_blips q)"
  shows "\<exists>b \<in> set blips.
           blip_name bl = row_name b \<and>
           blip_ring bl =
             Some \<lparr>ring_name = row_ring b,
                   ring_order =
                     card (set (takeWhile (\<lambda>x. x \<noteq> row_ring b) (map row_ring blips)))\<rparr> \<and>
           card (set (takeWhile (\<lambda>x. x \<noteq> row_ring b) (map row_ring blips))) <
             card (row_ring ` set blips)"
proof -
  from q obtain k where "q = \<lparr>quadrant_name = capitalize k,
             quadrant_blips =
               map (\<lambda>b. \<lparr>blip_name = row_name b,
                         blip_ring =
                           Some \<lparr>ring_name = row_ring b,
                                 ring_order =
                                   card (set (takeWhile (\<lambda>x. x \<noteq> row_ring b)
                                                (map row_ring blips)))\<rparr>,
                         blip_isNew = (toLowerCase (row_isNew b) = ''true''),
                         blip_topic = row_topic b,
                         blip_description = row_description b\<rparr>)
                 (filter (\<lambda>b. row_quadrant b = k) blips)\<rparr>"
    unfolding plotRadar_rings(2) [OF p] by (elim imageE)
  with bl obtain b where b: "b \<in> set blips"
    and e: "bl = \<lparr>blip_name = row_name b,
                         blip_ring =
                           Some \<lparr>ring_name = row_ring b,
                                 ring_order =
                                   card (set (takeWhile (\<lambda>x. x \<noteq> row_ring b)
                                                (map row_ring blips)))\<rparr>,
                         blip_isNew = (toLowerCase (row_isNew b) = ''true''),
                         blip_topic = row_topic b,
                         blip_description = row_description b\<rparr>"
    by auto
  from b have "row_ring b \<in> set (map row_ring blips)" by simp
  from first_seen_bound [OF this]
  have "card (set (takeWhile (\<lambda>x. x \<noteq> row_ring b) (map row_ring blips))) <
             card (row_ring ` set blips)" by simp
  with b e show ?thesis by (intro bexI [of _ b]) simp_all
qed

lemmas sample_defs = sampleRow_def scenarioA_def scenarioB_def scenarioC_def fiveQuadrants_def


section \<open>Messages\<close>

lemmas message_defs = TOO_MANY_QUADRANTS_def TOO_MANY_RINGS_def MISSING_HEADERS_def
  MISSING_CONTENT_def LESS_THAN_FOUR_QUADRANTS_def SHEET_NOT_FOUND_def UNAUTHORIZED_def

lemma distinct_ExceptionMessages: "distinct ExceptionMessages"
  by (simp add: ExceptionMessages_def message_defs)

lemma missing_sheetId_TypeError:
  "truthy domainName \<Longrightarrow> sheetId params = None \<Longrightarrow>
   GoogleSheetInput_build flag domainName params = Throw TypeError"
  by (cases domainName) (auto simp: GoogleSheetInput_build_def)

section \<open>Runs\<close>

lemma after_two_events:
  assumes "a # b # rest = pre @ ev # post" and "ev \<noteq> a" and "ev \<noteq> b"
  shows "a \<in> set pre \<and> b \<in> set pre"
proof (cases pre)
  case Nil
  with assms show ?thesis by simp
next
  case (Cons x pre')
  with assms have x: "x = a" and r: "b # rest = pre' @ ev # post" by simp_all
  show ?thesis
  proof (cases pre')
    case Nil
    with r assms show ?thesis by simp
  next
    case (Cons y pre'')
    with r have "y = b" by simp
    with x Cons \<open>pre = x # pre'\<close> show ?thesis by simp
  qed
qed

lemma forEach_verify_events:
  "forEach_verify env header vs = (evs, r) \<Longrightarrow>
   set evs \<subseteq> {VerifyContent header, VerifyHeaders header}"
  by (induction vs arbitrary: evs r) (auto split: option.splits prod.splits)

lemma forEach_verify_passed:
  "forEach_verify env header (v # vs) = (evs, None) \<Longrightarrow>
   verifyContent env header = None \<and> verifyHeaders env header = None \<and>
   (\<exists>evs'. evs = VerifyContent header # VerifyHeaders header # evs')"
  by (auto split: option.splits prod.splits)

lemma createBlips_shape:
  "(\<exists>rest. createBlips env url columnNames data current =
      VerifyContent columnNames # VerifyHeaders columnNames # rest \<and>
      verifyContent env columnNames = None \<and> verifyHeaders env columnNames = None) \<or>
   (\<forall>ev \<in> set (createBlips env url columnNames data current).
      \<not> isSanitize ev \<and> \<not> isPlotRadar ev)"
  by (auto simp: createBlips_def split: option.splits)

lemma createBlips_order:
  assumes "createBlips env url columnNames data current = pre @ ev # post"
    and "isSanitize ev \<or> isPlotRadar ev"
  shows "VerifyContent columnNames \<in> set pre \<and> VerifyHeaders columnNames \<in> set pre \<and>
         verifyContent env columnNames = None \<and> verifyHeaders env columnNames = None"
proof -
  from createBlips_shape [of env url columnNames data current]
  show ?thesis
  proof
    assume "\<exists>rest. createBlips env url columnNames data current =
      VerifyContent columnNames # VerifyHeaders columnNames # rest \<and>
      verifyContent env columnNames = None \<and> verifyHeaders env columnNames = None"
    then obtain rest where
      t: "createBlips env url columnNames data current =
            VerifyContent columnNames # VerifyHeaders columnNames # rest"
      and ok: "verifyContent env columnNames = None" "verifyHeaders env columnNames = None"
      by (elim exE conjE)
    from t assms(1) have
      "VerifyContent columnNames # VerifyHeaders columnNames # rest = pre @ ev # post" by simp
    moreover from assms(2) have "ev \<noteq> VerifyContent columnNames" "ev \<noteq> VerifyHeaders columnNames"
      by auto
    ultimately have "VerifyContent columnNames \<in> set pre \<and> VerifyHeaders columnNames \<in> set pre"
      by (rule after_two_events)
    with ok show ?thesis by simp
  next
    assume a: "\<forall>ev \<in> set (createBlips env url columnNames data current).
      \<not> isSanitize ev \<and> \<not> isPlotRadar ev"
    from assms(1) have "ev \<in> set (createBlips env url columnNames data current)" by simp
    with a assms(2) show ?thesis by blast
  qed
qed

lemma createBlips_failed:
  assumes "verifyContent env columnNames \<noteq> None \<or> verifyHeaders env columnNames \<noteq> None"
  shows "\<forall>ev \<in> set (createBlips env url columnNames data current).
           \<not> isSanitize ev \<and> \<not> isPlotRadar ev"
  using assms by (auto simp: createBlips_def split: option.splits)

lemma createBlips_GraphingRadar:
  assumes "GraphingRadar p \<in> set (createBlips env url columnNames data current)"
  shows "\<exists>fileName. FileName env url = Inr fileName \<and>
           plotRadar fileName (map (sanitize env) data) (Some current) [] = Inr p"
  using assms by (auto simp: createBlips_def split: option.splits sum.splits)

lemma sheet_shape:
  "(\<exists>rest. fst (createBlipsForProtectedSheet env name documentTitle (header # all) sheetNames) =
      VerifyContent header # VerifyHeaders header # rest \<and>
      verifyContent env header = None \<and> verifyHeaders env header = None) \<or>
   (\<forall>ev \<in> set (fst (createBlipsForProtectedSheet env name documentTitle (header # all) sheetNames)).
      \<not> isSanitize ev \<and> \<not> isPlotRadar ev)"
proof (cases "forEach_verify env header (header # all)")
  case (Pair evs r)
  show ?thesis
  proof (cases r)
    case None
    with Pair forEach_verify_passed [of env header header all evs]
    obtain evs' where "evs = VerifyContent header # VerifyHeaders header # evs'"
      and "verifyContent env header = None" "verifyHeaders env header = None" by blast
    with Pair None show ?thesis
      by (auto simp: createBlipsForProtectedSheet_def Let_def split: sum.splits)
  next
    case (Some e)
    from forEach_verify_events [OF Pair]
    have "\<forall>ev \<in> set evs. \<not> isSanitize ev \<and> \<not> isPlotRadar ev" by auto
    with Pair Some show ?thesis
      by (simp add: createBlipsForProtectedSheet_def Let_def)
  qed
qed

lemma sheet_order:
  assumes "fst (createBlipsForProtectedSheet env name documentTitle (header # all) sheetNames) =
             pre @ ev # post"
    and "isSanitize ev \<or> isPlotRadar ev"
  shows "VerifyContent header \<in> set pre \<and> VerifyHeaders header \<in> set pre \<and>
         verifyContent env header = None \<and> verifyHeaders env header = None"
proof -
  let ?t = "fst (createBlipsForProtectedSheet env name documentTitle (header # all) sheetNames)"
  from sheet_shape [of env name documentTitle header all sheetNames]
  show ?thesis
  proof
    assume "\<exists>rest. ?t = VerifyContent header # VerifyHeaders header # rest \<and>
      verifyContent env header = None \<and> verifyHeaders env header = None"
    then obtain rest where t: "?t = VerifyContent header # VerifyHeaders header # rest"
      and ok: "verifyContent env header = None" "verifyHeaders env header = None"
      by (elim exE conjE)
    from t assms(1) have "VerifyContent header # VerifyHeaders header # rest = pre @ ev # post"
      by simp
    moreover from assms(2) have "ev \<noteq> VerifyContent header" "ev \<noteq> VerifyHeaders header"
      by auto
    ultimately have "VerifyContent header \<in> set pre \<and> VerifyHeaders header \<in> set pre"
      by (rule after_two_events)
    with ok show ?thesis by simp
  next
    assume a: "\<forall>ev \<in> set ?t. \<not> isSanitize ev \<and> \<not> isPlotRadar ev"
    from assms(1) have "ev \<in> set ?t" by simp
    with a assms(2) show ?thesis by blast
  qed
qed

lemma sheet_failed:
  assumes "verifyContent env header \<noteq> None \<or> verifyHeaders env header \<noteq> None"
  shows "\<forall>ev \<in> set (fst (createBlipsForProtectedSheet env name documentTitle (header # all)
                          sheetNames)). \<not> isSanitize ev \<and> \<not> isPlotRadar ev"
  using sheet_shape [of env name documentTitle header all sheetNames] assms by auto

lemma sheet_empty:
  "\<forall>ev \<in> set (fst (createBlipsForProtectedSheet env name documentTitle [] sheetNames)).
     \<not> isSanitize ev"
  by (auto simp: createBlipsForProtectedSheet_def Let_def split: sum.splits)

lemma sheet_GraphingRadar:
  assumes "GraphingRadar p \<in>
      set (fst (createBlipsForProtectedSheet env name documentTitle values sheetNames))"
  shows "\<exists>blips.
      plotRadar
        (documentTitle @ '' - '' @
           toString (if \<not> truthy name then (case sheetNames of [] \<Rightarrow> None | n # _ \<Rightarrow> Some n)
                     else name))
        blips
        (if \<not> truthy name then (case sheetNames of [] \<Rightarrow> None | n # _ \<Rightarrow> Some n) else name)
        sheetNames = Inr p"
proof (cases "values")
  case Nil
  with assms show ?thesis
    by (auto simp: createBlipsForProtectedSheet_def Let_def split: sum.splits)
next
  case (Cons header all)
  obtain evs r where v: "forEach_verify env header (header # all) = (evs, r)"
    by (cases "forEach_verify env header (header # all)")
  from forEach_verify_events [OF v] have "GraphingRadar p \<notin> set evs" by auto
  with assms Cons v show ?thesis
    by (cases r) (auto simp: createBlipsForProtectedSheet_def Let_def split: sum.splits)
qed

lemma endsWith_append: "endsWith (b @ s) s"
  by (simp add: endsWith_def)

lemma stripExtensions_json_csv: "stripExtensions (b @ ''.json.csv'') = b"
  by (simp add: stripExtensions_def endsWith_def)

lemma stripExtensions_csv:
  assumes "\<not> endsWith b ''.json''"
  shows "stripExtensions (b @ ''.csv'') = b"
proof -
  have "endsWith (b @ ''.csv'') ''.csv''" by (rule endsWith_append)
  moreover have "take (length (b @ ''.csv'') - 4) (b @ ''.csv'') = b" by simp
  ultimately show ?thesis
    using assms by (simp only: stripExtensions_def Let_def if_True if_False)
qed

lemma stripExtensions_json: "stripExtensions (b @ ''.json'') = b"
proof -
  have "\<not> endsWith (b @ ''.json'') ''.csv''"
    by (simp add: endsWith_def)
  then show ?thesis
    by (simp add: stripExtensions_def) (simp add: endsWith_def)
qed

lemma stripExtensions_other:
  "\<not> endsWith t ''.csv'' \<Longrightarrow> \<not> endsWith t ''.json'' \<Longrightarrow> stripExtensions t = t"
  by (simp add: stripExtensions_def)

lemma FileName_segment:
  assumes "FileName env url = Inr fileName"
  shows "\<exists>decoded dir segment.
           decodeURIComponent env (replacePlus url) = Some decoded \<and>
           decoded = dir @ segment \<and>
           (\<forall>c \<in> set segment. \<not> isSeparator c) \<and>
           (dir = [] \<or> isSeparator (last dir)) \<and>
           fileName = (if segment = [] then url else segment)"
proof -
  from assms obtain decoded where d: "decodeURIComponent env (replacePlus url) = Some decoded"
    by (auto simp: FileName_def split: option.splits)
  let ?P = "\<lambda>c. \<not> isSeparator c"
  let ?seg = "rev (takeWhile ?P (rev decoded))"
  let ?dir = "rev (dropWhile ?P (rev decoded))"
  have "?dir @ ?seg = rev (takeWhile ?P (rev decoded) @ dropWhile ?P (rev decoded))"
    by (simp only: rev_append)
  also have "\<dots> = rev (rev decoded)" by (simp only: takeWhile_dropWhile_id)
  finally have split: "decoded = ?dir @ ?seg" by simp
  have seg: "\<forall>c \<in> set ?seg. \<not> isSeparator c"
    by (auto dest: set_takeWhileD)
  have dir: "?dir = [] \<or> isSeparator (last ?dir)"
  proof (cases "dropWhile ?P (rev decoded)")
    case Nil
    then show ?thesis by simp
  next
    case (Cons c cs)
    then have "\<not> ?P (hd (dropWhile ?P (rev decoded)))"
      using hd_dropWhile [of ?P "rev decoded"] by simp
    with Cons show ?thesis by (simp add: last_rev)
  qed
  from assms d have "fileName = (if ?seg = [] then url else ?seg)"
    by (auto simp: FileName_def Let_def split: if_splits)
  with d split seg dir show ?thesis by blast
qed

lemma createBlips_success:
  assumes "verifyContent env columnNames = None" and "verifyHeaders env columnNames = None"
    and "FileName env url = Inr fileName"
    and "plotRadar fileName (map (sanitize env) data) (Some current) [] = Inr p"
  shows "createBlips env url columnNames data current =
           VerifyContent columnNames # VerifyHeaders columnNames # map Sanitize data @
           [PlotRadar fileName, GraphingRadar p]"
  using assms by (simp add: createBlips_def)

lemma sheet_success:
  assumes "forEach_verify env header (header # all) = (evs, None)"
    and "plotRadar
        (documentTitle @ '' - '' @
           toString (if \<not> truthy name then (case sheetNames of [] \<Rightarrow> None | n # _ \<Rightarrow> Some n)
                     else name))
        (map (\<lambda>blip. sanitizeForProtectedSheet env blip header) all)
        (if \<not> truthy name then (case sheetNames of [] \<Rightarrow> None | n # _ \<Rightarrow> Some n) else name)
        sheetNames = Inr p"
  shows "fst (createBlipsForProtectedSheet env name documentTitle (header # all) sheetNames) =
           evs @ map (\<lambda>blip. SanitizeForProtectedSheet blip header) all @
           [PlotRadar
              (documentTitle @ '' - '' @
                 toString (if \<not> truthy name
                           then (case sheetNames of [] \<Rightarrow> None | n # _ \<Rightarrow> Some n) else name)),
            GraphingRadar p]"
  using assms by (simp add: createBlipsForProtectedSheet_def Let_def)

lemmas sampleEnv_defs = sampleEnv_def sampleData_def sampleRaw_def sampleValues_def
  requiredHeaders_def field_def cell_def

lemma sampleData_plot:
  "\<exists>p. plotRadar title (map (sanitize sampleEnv) sampleData) current alternatives = Inr p"
proof (rule plotRadar_four)
  show "card (row_ring ` set (map (sanitize sampleEnv) sampleData)) \<le> 4"
    by (simp add: sampleEnv_defs card_insert_if)
  show "\<forall>b \<in> set (map (sanitize sampleEnv) sampleData). row_quadrant b \<notin> set objectPrototypeKeys"
    by (simp add: sampleEnv_defs objectPrototypeKeys_def)
  show "card (row_quadrant ` set (map (sanitize sampleEnv) sampleData)) = 4"
    by (simp add: sampleEnv_defs card_insert_if)
qed

lemma sampleValues_plot:
  "\<exists>p. plotRadar title
         (map (\<lambda>blip. sanitizeForProtectedSheet sampleEnv blip requiredHeaders) (tl sampleValues))
         current alternatives = Inr p"
proof (rule plotRadar_four)
  let ?blips = "map (\<lambda>blip. sanitizeForProtectedSheet sampleEnv blip requiredHeaders) (tl sampleValues)"
  show "card (row_ring ` set ?blips) \<le> 4"
    by (simp add: sampleEnv_defs card_insert_if)
  show "\<forall>b \<in> set ?blips. row_quadrant b \<notin> set objectPrototypeKeys"
    by (simp add: sampleEnv_defs objectPrototypeKeys_def)
  show "card (row_quadrant ` set ?blips) = 4"
    by (simp add: sampleEnv_defs card_insert_if)
qed

lemma sample_verified:
  "verifyContent sampleEnv requiredHeaders = None"
  "verifyHeaders sampleEnv requiredHeaders = None"
  by (simp_all add: sampleEnv_def requiredHeaders_def)

lemma sample_FileName:
  "FileName sampleEnv ''https://example.com/radar.csv'' = Inr ''radar.csv''"
  "FileName sampleEnv ''https://example.com/radar.json'' = Inr ''radar.json''"
  "FileName sampleEnv ''https://example.com/radar.json.csv'' = Inr ''radar.json.csv''"
  by (simp_all add: FileName_def replacePlus_def isSeparator_def sampleEnv_def)

lemma sample_forEach_verify:
  "\<exists>evs. forEach_verify sampleEnv requiredHeaders sampleValues = (evs, None)"
  by (simp add: sampleValues_def sample_verified)

section \<open>The properties of the specification\<close>

text \<open>
  C1, as amended. Absent other errors, that is for rows with at most four distinct ring
  values and no quadrant value that names a property inherited from \<^verbatim>\<open>Object.prototype\<close>,
  building the radar fails with \<^verbatim>\<open>LESS_THAN_FOUR_QUADRANTS\<close> when the rows have fewer than
  four distinct quadrant values, fails with \<^verbatim>\<open>TOO_MANY_QUADRANTS\<close> when they have more than
  four, and succeeds with a radar of four quadrants when they have exactly four. The
  count is enforced after the grouping, whatever was checked before.
\<close>

theorem quadrant_count_enforced:
  assumes rings: "card (row_ring ` set blips) \<le> 4"
    and keys: "\<forall>b \<in> set blips. row_quadrant b \<notin> set objectPrototypeKeys"
  shows "(card (row_quadrant ` set blips) < 4 \<longrightarrow>
            plotRadar title blips currentRadarName alternativeRadars =
              Inl (MalformedDataError LESS_THAN_FOUR_QUADRANTS)) \<and>
         (4 < card (row_quadrant ` set blips) \<longrightarrow>
            plotRadar title blips currentRadarName alternativeRadars =
              Inl (MalformedDataError TOO_MANY_QUADRANTS)) \<and>
         (card (row_quadrant ` set blips) = 4 \<longrightarrow>
            (\<exists>p. plotRadar title blips currentRadarName alternativeRadars = Inr p \<and>
                 length (radar_quadrants (plot_radar p)) = 4))"
proof -
  from buildRingMap_ok [OF rings] obtain rm where rm: "buildRingMap blips = Inr rm" by blast
  from each_blip_groups [OF keys, of rm] obtain qs where
    qs: "each_blip rm blips [] = Inr qs" and len: "length qs = card (row_quadrant ` set blips)"
    by blast
  have n: "length (map snd (ownProperties qs)) = card (row_quadrant ` set blips)"
    by (simp add: length_ownProperties len)
  show ?thesis
    using n
    by (auto simp: plotRadar_def rm qs addQuadrants_def setCurrentSheet_def foldl_addAlternative)
qed

theorem quadrant_count_enforced_witness:
  "plotRadar ''radar.csv'' scenarioB (Some ''CSV File'') [] =
     Inl (MalformedDataError LESS_THAN_FOUR_QUADRANTS) \<and>
   plotRadar ''radar.csv'' fiveQuadrants (Some ''CSV File'') [] =
     Inl (MalformedDataError TOO_MANY_QUADRANTS) \<and>
   (\<exists>p. plotRadar ''radar.csv'' scenarioA (Some ''CSV File'') [] = Inr p \<and>
        length (radar_quadrants (plot_radar p)) = 4)"
  using quadrant_count_enforced [of scenarioB "''radar.csv''" "Some ''CSV File''" "[]"]
    quadrant_count_enforced [of fiveQuadrants "''radar.csv''" "Some ''CSV File''" "[]"]
    quadrant_count_enforced [of scenarioA "''radar.csv''" "Some ''CSV File''" "[]"]
  by (simp add: sample_defs objectPrototypeKeys_def card_insert_if)

text \<open>
  C1 as stated fails: the five rows of \<open>scenarioC\<close> have one quadrant value and five ring
  values, and the build fails with \<^verbatim>\<open>TOO_MANY_RINGS\<close>, not with
  \<^verbatim>\<open>LESS_THAN_FOUR_QUADRANTS\<close>: the rings are checked first.
\<close>

theorem quadrant_count_after_rings_counterexample:
  "card (row_quadrant ` set scenarioC) < 4 \<and>
   plotRadar ''radar.csv'' scenarioC (Some ''CSV File'') [] =
     Inl (MalformedDataError TOO_MANY_RINGS) \<and>
   plotRadar ''radar.csv'' scenarioC (Some ''CSV File'') [] \<noteq>
     Inl (MalformedDataError LESS_THAN_FOUR_QUADRANTS)"
proof -
  have "4 < card (row_ring ` set scenarioC)"
    by (simp add: sample_defs card_insert_if)
  then have "plotRadar ''radar.csv'' scenarioC (Some ''CSV File'') [] =
     Inl (MalformedDataError TOO_MANY_RINGS)"
    by (simp add: plotRadar_def buildRingMap_overflow)
  moreover have "card (row_quadrant ` set scenarioC) < 4"
    by (simp add: sample_defs card_insert_if)
  ultimately show ?thesis
    by (simp add: TOO_MANY_RINGS_def LESS_THAN_FOUR_QUADRANTS_def)
qed

text \<open>
  C2. When the rows have more than four distinct ring values, building the radar fails
  with the \<^verbatim>\<open>MalformedDataError\<close> of message \<^verbatim>\<open>TOO_MANY_RINGS\<close>. When they have \<open>k \<le> 4\<close>,
  the build does not fail with that error; the ring names over which the rings are
  created are pairwise distinct and are exactly the ring values of the rows, so each ring
  is created once; the ring of a value \<open>r\<close> has the name \<open>r\<close> and, as its order, the number
  of distinct ring values met before the first row with \<open>r\<close>; and the orders are the
  integers from \<open>0\<close> to \<open>k - 1\<close>. With \<open>k \<le> 4\<close>, four distinct quadrant values and no
  quadrant value that names an inherited property, the build succeeds. Every radar that
  is built comes from rows with at most four ring values, and its quadrants are, for each
  quadrant value, the blips of the rows with that value in the order of the rows, each
  with the ring of its row: the name of the ring value and its first-seen order, which is
  below \<open>k\<close>. All of this is a function of the list of rows.
\<close>

theorem ring_orders_first_seen:
  "(4 < card (row_ring ` set blips) \<longrightarrow>
      plotRadar title blips currentRadarName alternativeRadars =
        Inl (MalformedDataError TOO_MANY_RINGS)) \<and>
   (card (row_ring ` set blips) \<le> 4 \<longrightarrow>
      plotRadar title blips currentRadarName alternativeRadars \<noteq>
        Inl (MalformedDataError TOO_MANY_RINGS) \<and>
      distinct (map row_ring (uniqBy blips row_ring)) \<and>
      set (map row_ring (uniqBy blips row_ring)) = row_ring ` set blips \<and>
      (\<exists>ringMap. buildRingMap blips = Inr ringMap \<and>
         dom ringMap = row_ring ` set blips \<and>
         (\<forall>r \<in> row_ring ` set blips.
            ringMap r =
              Some \<lparr>ring_name = r,
                    ring_order = card (set (takeWhile (\<lambda>x. x \<noteq> r) (map row_ring blips)))\<rparr>) \<and>
         ring_order ` ran ringMap = {0 ..< card (row_ring ` set blips)})) \<and>
   (card (row_ring ` set blips) \<le> 4 \<and>
    (\<forall>b \<in> set blips. row_quadrant b \<notin> set objectPrototypeKeys) \<and>
    card (row_quadrant ` set blips) = 4 \<longrightarrow>
      (\<exists>built. plotRadar title blips currentRadarName alternativeRadars = Inr built)) \<and>
   (plotRadar title blips currentRadarName alternativeRadars = Inr p \<longrightarrow>
      card (row_ring ` set blips) \<le> 4 \<and>
      set (radar_quadrants (plot_radar p)) =
        (\<lambda>k. \<lparr>quadrant_name = capitalize k,
               quadrant_blips =
                 map (\<lambda>b. \<lparr>blip_name = row_name b,
                           blip_ring =
                             Some \<lparr>ring_name = row_ring b,
                                   ring_order =
                                     card (set (takeWhile (\<lambda>x. x \<noteq> row_ring b)
                                                  (map row_ring blips)))\<rparr>,
                           blip_isNew = (toLowerCase (row_isNew b) = ''true''),
                           blip_topic = row_topic b,
                           blip_description = row_description b\<rparr>)
                   (filter (\<lambda>b. row_quadrant b = k) blips)\<rparr>) `
          row_quadrant ` set blips \<and>
      (\<forall>q \<in> set (radar_quadrants (plot_radar p)). \<forall>bl \<in> set (quadrant_blips q).
         \<exists>b \<in> set blips.
           blip_name bl = row_name b \<and>
           blip_ring bl =
             Some \<lparr>ring_name = row_ring b,
                   ring_order =
                     card (set (takeWhile (\<lambda>x. x \<noteq> row_ring b) (map row_ring blips)))\<rparr> \<and>
           card (set (takeWhile (\<lambda>x. x \<noteq> row_ring b) (map row_ring blips))) <
             card (row_ring ` set blips)))"
proof -
  have over: "4 < card (row_ring ` set blips) \<longrightarrow>
      plotRadar title blips currentRadarName alternativeRadars =
        Inl (MalformedDataError TOO_MANY_RINGS)"
    by (simp add: plotRadar_def buildRingMap_overflow)
  have d: "distinct (map row_ring (uniqBy blips row_ring))"
    by (simp only: uniqBy_firstSeen distinct_firstSeen)
  have s: "set (map row_ring (uniqBy blips row_ring)) = row_ring ` set blips"
    by (simp only: uniqBy_firstSeen set_firstSeen set_map)
  have rings: "\<exists>ringMap. buildRingMap blips = Inr ringMap \<and>
         dom ringMap = row_ring ` set blips \<and>
         (\<forall>r \<in> row_ring ` set blips.
            ringMap r =
              Some \<lparr>ring_name = r,
                    ring_order = card (set (takeWhile (\<lambda>x. x \<noteq> r) (map row_ring blips)))\<rparr>) \<and>
         ring_order ` ran ringMap = {0 ..< card (row_ring ` set blips)}"
    if le: "card (row_ring ` set blips) \<le> 4"
  proof -
    let ?ys = "map row_ring blips"
    let ?us = "firstSeen ?ys"
    let ?m = "\<lambda>k. if k \<in> row_ring ` set blips
                 then Some \<lparr>ring_name = k,
                            ring_order = card (set (takeWhile (\<lambda>y. y \<noteq> k) ?ys))\<rparr>
                 else None"
    have m: "buildRingMap blips = Inr ?m" by (rule buildRingMap_ok [OF le])
    have dom: "dom ?m = row_ring ` set blips" by (auto simp: dom_def)
    have ord: "card (set (takeWhile (\<lambda>y. y \<noteq> k) ?ys)) = length (takeWhile (\<lambda>y. y \<noteq> k) ?us)"
      for k
      by (simp add: takeWhile_firstSeen length_firstSeen)
    have "ran ?m =
        (\<lambda>k. \<lparr>ring_name = k, ring_order = length (takeWhile (\<lambda>y. y \<noteq> k) ?us)\<rparr>) ` set ?us"
      by (auto simp: ran_def set_firstSeen ord)
    then have "ring_order ` ran ?m = (\<lambda>k. length (takeWhile (\<lambda>y. y \<noteq> k) ?us)) ` set ?us"
      by (simp add: image_image)
    also have "\<dots> = {0 ..< length ?us}"
      by (rule takeWhile_index_image [OF distinct_firstSeen])
    finally have rng: "ring_order ` ran ?m = {0 ..< card (row_ring ` set blips)}"
      by (simp add: length_firstSeen)
    show ?thesis
      using m dom rng by (intro exI [of _ ?m]) simp
  qed
  have under: "card (row_ring ` set blips) \<le> 4 \<longrightarrow>
      plotRadar title blips currentRadarName alternativeRadars \<noteq>
        Inl (MalformedDataError TOO_MANY_RINGS) \<and>
      distinct (map row_ring (uniqBy blips row_ring)) \<and>
      set (map row_ring (uniqBy blips row_ring)) = row_ring ` set blips \<and>
      (\<exists>ringMap. buildRingMap blips = Inr ringMap \<and>
         dom ringMap = row_ring ` set blips \<and>
         (\<forall>r \<in> row_ring ` set blips.
            ringMap r =
              Some \<lparr>ring_name = r,
                    ring_order = card (set (takeWhile (\<lambda>x. x \<noteq> r) (map row_ring blips)))\<rparr>) \<and>
         ring_order ` ran ringMap = {0 ..< card (row_ring ` set blips)})"
    using d s rings plotRadar_not_rings [of blips title currentRadarName alternativeRadars]
    by (intro impI conjI)
  have succeeds: "card (row_ring ` set blips) \<le> 4 \<and>
    (\<forall>b \<in> set blips. row_quadrant b \<notin> set objectPrototypeKeys) \<and>
    card (row_quadrant ` set blips) = 4 \<longrightarrow>
      (\<exists>built. plotRadar title blips currentRadarName alternativeRadars = Inr built)"
    using plotRadar_four [of blips title currentRadarName alternativeRadars]
    by (intro impI) (elim conjE)
  have built: "plotRadar title blips currentRadarName alternativeRadars = Inr p \<longrightarrow>
      card (row_ring ` set blips) \<le> 4 \<and>
      set (radar_quadrants (plot_radar p)) =
        (\<lambda>k. \<lparr>quadrant_name = capitalize k,
               quadrant_blips =
                 map (\<lambda>b. \<lparr>blip_name = row_name b,
                           blip_ring =
                             Some \<lparr>ring_name = row_ring b,
                                   ring_order =
                                     card (set (takeWhile (\<lambda>x. x \<noteq> row_ring b)
                                                  (map row_ring blips)))\<rparr>,
                           blip_isNew = (toLowerCase (row_isNew b) = ''true''),
                           blip_topic = row_topic b,
                           blip_description = row_description b\<rparr>)
                   (filter (\<lambda>b. row_quadrant b = k) blips)\<rparr>) `
          row_quadrant ` set blips \<and>
      (\<forall>q \<in> set (radar_quadrants (plot_radar p)). \<forall>bl \<in> set (quadrant_blips q).
         \<exists>b \<in> set blips.
           blip_name bl = row_name b \<and>
           blip_ring bl =
             Some \<lparr>ring_name = row_ring b,
                   ring_order =
                     card (set (takeWhile (\<lambda>x. x \<noteq> row_ring b) (map row_ring blips)))\<rparr> \<and>
           card (set (takeWhile (\<lambda>x. x \<noteq> row_ring b) (map row_ring blips))) <
             card (row_ring ` set blips))"
  proof (intro impI conjI ballI)
    assume p: "plotRadar title blips currentRadarName alternativeRadars = Inr p"
    show "card (row_ring ` set blips) \<le> 4" by (rule plotRadar_rings(1) [OF p])
    show "set (radar_quadrants (plot_radar p)) =
        (\<lambda>k. \<lparr>quadrant_name = capitalize k,
               quadrant_blips =
                 map (\<lambda>b. \<lparr>blip_name = row_name b,
                           blip_ring =
                             Some \<lparr>ring_name = row_ring b,
                                   ring_order =
                                     card (set (takeWhile (\<lambda>x. x \<noteq> row_ring b)
                                                  (map row_ring blips)))\<rparr>,
                           blip_isNew = (toLowerCase (row_isNew b) = ''true''),
                           blip_topic = row_topic b,
                           blip_description = row_description b\<rparr>)
                   (filter (\<lambda>b. row_quadrant b = k) blips)\<rparr>) `
          row_quadrant ` set blips"
      by (rule plotRadar_rings(2) [OF p])
    fix q bl
    assume "q \<in> set (radar_quadrants (plot_radar p))" and "bl \<in> set (quadrant_blips q)"
    with p show "\<exists>b \<in> set blips.
           blip_name bl = row_name b \<and>
           blip_ring bl =
             Some \<lparr>ring_name = row_ring b,
                   ring_order =
                     card (set (takeWhile (\<lambda>x. x \<noteq> row_ring b) (map row_ring blips)))\<rparr> \<and>
           card (set (takeWhile (\<lambda>x. x \<noteq> row_ring b) (map row_ring blips))) <
             card (row_ring ` set blips)"
      by (rule plotRadar_blip_rings)
  qed
  from over under succeeds built show ?thesis
    by (intro conjI)
qed

theorem ring_orders_first_seen_witness:
  "4 < card (row_ring ` set scenarioC) \<and>
   plotRadar ''radar.csv'' scenarioC (Some ''CSV File'') [] =
     Inl (MalformedDataError TOO_MANY_RINGS) \<and>
   card (row_ring ` set scenarioA) \<le> 4 \<and>
   plotRadar ''radar.csv'' scenarioA (Some ''CSV File'') [] \<noteq>
     Inl (MalformedDataError TOO_MANY_RINGS) \<and>
   (\<exists>ringMap. buildRingMap scenarioA = Inr ringMap \<and>
      ringMap ''Adopt'' = Some \<lparr>ring_name = ''Adopt'', ring_order = 0\<rparr> \<and>
      ringMap ''Trial'' = Some \<lparr>ring_name = ''Trial'', ring_order = 1\<rparr>) \<and>
   (\<exists>p. plotRadar ''radar.csv'' scenarioA (Some ''CSV File'') [] = Inr p \<and>
      \<lparr>quadrant_name = ''Techniques'',
        quadrant_blips =
          [\<lparr>blip_name = ''b'',
            blip_ring = Some \<lparr>ring_name = ''Trial'', ring_order = 1\<rparr>,
            blip_isNew = True, blip_topic = None, blip_description = []\<rparr>]\<rparr>
        \<in> set (radar_quadrants (plot_radar p)))"
proof -
  have five: "4 < card (row_ring ` set scenarioC)"
    and two: "card (row_ring ` set scenarioA) \<le> 4"
    by (simp_all add: sample_defs card_insert_if)
  note instC = ring_orders_first_seen [of scenarioC "''radar.csv''" "Some ''CSV File''" "[]"]
  from instC [THEN conjunct1, THEN mp, OF five]
  have c: "plotRadar ''radar.csv'' scenarioC (Some ''CSV File'') [] =
     Inl (MalformedDataError TOO_MANY_RINGS)" .
  note instA = ring_orders_first_seen [of scenarioA "''radar.csv''" "Some ''CSV File''" "[]"]
  note underA = instA [THEN conjunct2, THEN conjunct1, THEN mp, OF two]
  from underA have n: "plotRadar ''radar.csv'' scenarioA (Some ''CSV File'') [] \<noteq>
     Inl (MalformedDataError TOO_MANY_RINGS)"
    by (rule conjunct1)
  from underA [THEN conjunct2, THEN conjunct2, THEN conjunct2]
  obtain ringMap where m: "buildRingMap scenarioA = Inr ringMap"
    and r: "\<forall>r \<in> row_ring ` set scenarioA.
         ringMap r =
           Some \<lparr>ring_name = r,
                 ring_order = card (set (takeWhile (\<lambda>x. x \<noteq> r) (map row_ring scenarioA)))\<rparr>"
    by (elim exE conjE)
  have a: "''Adopt'' \<in> row_ring ` set scenarioA" and t: "''Trial'' \<in> row_ring ` set scenarioA"
    by (simp_all add: sample_defs)
  have "card (set (takeWhile (\<lambda>x. x \<noteq> ''Adopt'') (map row_ring scenarioA))) = 0"
    and "card (set (takeWhile (\<lambda>x. x \<noteq> ''Trial'') (map row_ring scenarioA))) = 1"
    by (simp_all add: sample_defs)
  with bspec [OF r a] bspec [OF r t]
  have "ringMap ''Adopt'' = Some \<lparr>ring_name = ''Adopt'', ring_order = 0\<rparr>"
    and "ringMap ''Trial'' = Some \<lparr>ring_name = ''Trial'', ring_order = 1\<rparr>"
    by simp_all
  with m have rm: "\<exists>ringMap. buildRingMap scenarioA = Inr ringMap \<and>
      ringMap ''Adopt'' = Some \<lparr>ring_name = ''Adopt'', ring_order = 0\<rparr> \<and>
      ringMap ''Trial'' = Some \<lparr>ring_name = ''Trial'', ring_order = 1\<rparr>"
    by (intro exI [of _ ringMap] conjI)
  have hyp: "card (row_ring ` set scenarioA) \<le> 4 \<and>
      (\<forall>b \<in> set scenarioA. row_quadrant b \<notin> set objectPrototypeKeys) \<and>
      card (row_quadrant ` set scenarioA) = 4"
    by (simp add: sample_defs objectPrototypeKeys_def card_insert_if)
  from instA [THEN conjunct2, THEN conjunct2, THEN conjunct1, THEN mp, OF hyp]
  obtain p where p: "plotRadar ''radar.csv'' scenarioA (Some ''CSV File'') [] = Inr p" ..
  note builtA = ring_orders_first_seen [of scenarioA "''radar.csv''" "Some ''CSV File''" "[]" p,
      THEN conjunct2, THEN conjunct2, THEN conjunct2, THEN mp, OF p, THEN conjunct2,
      THEN conjunct1]
  have "\<lparr>quadrant_name = ''Techniques'',
        quadrant_blips =
          [\<lparr>blip_name = ''b'',
            blip_ring = Some \<lparr>ring_name = ''Trial'', ring_order = 1\<rparr>,
            blip_isNew = True, blip_topic = None, blip_description = []\<rparr>]\<rparr>
        \<in> set (radar_quadrants (plot_radar p))"
    unfolding builtA
    by (rule image_eqI [where x = "''Techniques''"])
      (simp_all add: sample_defs capitalize_def toLowerCase_def toLowerChar_def toUpperChar_def)
  with p have q: "\<exists>p. plotRadar ''radar.csv'' scenarioA (Some ''CSV File'') [] = Inr p \<and>
      \<lparr>quadrant_name = ''Techniques'',
        quadrant_blips =
          [\<lparr>blip_name = ''b'',
            blip_ring = Some \<lparr>ring_name = ''Trial'', ring_order = 1\<rparr>,
            blip_isNew = True, blip_topic = None, blip_description = []\<rparr>]\<rparr>
        \<in> set (radar_quadrants (plot_radar p))"
    by (intro exI [of _ p] conjI)
  from five c two n rm q show ?thesis
    by (intro conjI)
qed

text \<open>
  C3. The \<^verbatim>\<open>isNew\<close> flag of the blip built from a row is true exactly when the raw value
  is the word \<^verbatim>\<open>true\<close> in any mixture of upper and lower case: four characters, the
  first \<^verbatim>\<open>t\<close> or \<^verbatim>\<open>T\<close>, the second \<^verbatim>\<open>r\<close> or \<^verbatim>\<open>R\<close>, the third \<^verbatim>\<open>u\<close> or \<^verbatim>\<open>U\<close>, the fourth
  \<^verbatim>\<open>e\<close> or \<^verbatim>\<open>E\<close>. Every other raw value gives false; the empty string, \<^verbatim>\<open>false\<close> and
  \<^verbatim>\<open>yes\<close> are among them, and \<^verbatim>\<open>True\<close>, \<^verbatim>\<open>TRUE\<close> and \<^verbatim>\<open>true\<close> give true. These blips are
  the blips of the radar: a radar that has been built has one quadrant for each quadrant
  value of the rows, and the blips of that quadrant are the blips built from the rows with
  this quadrant value, in the order of the rows.
\<close>

theorem isNew_case_insensitive_true:
  "(blip_isNew (newBlip ringMap b) \<longleftrightarrow>
      (\<exists>c1 c2 c3 c4. row_isNew b = [c1, c2, c3, c4] \<and>
         c1 \<in> {CHR ''t'', CHR ''T''} \<and> c2 \<in> {CHR ''r'', CHR ''R''} \<and>
         c3 \<in> {CHR ''u'', CHR ''U''} \<and> c4 \<in> {CHR ''e'', CHR ''E''})) \<and>
   blip_isNew (newBlip ringMap (b\<lparr>row_isNew := ''True''\<rparr>)) \<and>
   blip_isNew (newBlip ringMap (b\<lparr>row_isNew := ''TRUE''\<rparr>)) \<and>
   blip_isNew (newBlip ringMap (b\<lparr>row_isNew := ''true''\<rparr>)) \<and>
   \<not> blip_isNew (newBlip ringMap (b\<lparr>row_isNew := ''''\<rparr>)) \<and>
   \<not> blip_isNew (newBlip ringMap (b\<lparr>row_isNew := ''false''\<rparr>)) \<and>
   \<not> blip_isNew (newBlip ringMap (b\<lparr>row_isNew := ''yes''\<rparr>)) \<and>
   (plotRadar title blips currentRadarName alternativeRadars = Inr p \<longrightarrow>
      (\<exists>rings. buildRingMap blips = Inr rings \<and>
         set (radar_quadrants (plot_radar p)) =
           (\<lambda>k. \<lparr>quadrant_name = capitalize k,
                  quadrant_blips = map (newBlip rings) (filter (\<lambda>b. row_quadrant b = k) blips)\<rparr>) `
             row_quadrant ` set blips))"
proof -
  have "blip_isNew (newBlip ringMap b) \<longleftrightarrow>
      (\<exists>c1 c2 c3 c4. row_isNew b = [c1, c2, c3, c4] \<and>
         c1 \<in> {CHR ''t'', CHR ''T''} \<and> c2 \<in> {CHR ''r'', CHR ''R''} \<and>
         c3 \<in> {CHR ''u'', CHR ''U''} \<and> c4 \<in> {CHR ''e'', CHR ''E''})"
    by (simp only: newBlip_def blip.simps toLowerCase_true)
  moreover have "blip_isNew (newBlip ringMap (b\<lparr>row_isNew := ''True''\<rparr>))"
    and "blip_isNew (newBlip ringMap (b\<lparr>row_isNew := ''TRUE''\<rparr>))"
    and "blip_isNew (newBlip ringMap (b\<lparr>row_isNew := ''true''\<rparr>))"
    and "\<not> blip_isNew (newBlip ringMap (b\<lparr>row_isNew := ''''\<rparr>))"
    and "\<not> blip_isNew (newBlip ringMap (b\<lparr>row_isNew := ''false''\<rparr>))"
    and "\<not> blip_isNew (newBlip ringMap (b\<lparr>row_isNew := ''yes''\<rparr>))"
    by (simp_all add: newBlip_def toLowerCase_def toLowerChar_def)
  moreover have "plotRadar title blips currentRadarName alternativeRadars = Inr p \<longrightarrow>
      (\<exists>rings. buildRingMap blips = Inr rings \<and>
         set (radar_quadrants (plot_radar p)) =
           (\<lambda>k. \<lparr>quadrant_name = capitalize k,
                  quadrant_blips = map (newBlip rings) (filter (\<lambda>b. row_quadrant b = k) blips)\<rparr>) `
             row_quadrant ` set blips)"
    using plotRadar_quadrants [of title blips currentRadarName alternativeRadars p]
    by (simp only: grouped_def) (rule impI)
  ultimately show ?thesis
    by (intro conjI)
qed

theorem isNew_case_insensitive_true_witness:
  "\<exists>p rings.
     plotRadar ''radar.csv'' scenarioA (Some ''CSV File'') [] = Inr p \<and>
     buildRingMap scenarioA = Inr rings \<and>
     set (radar_quadrants (plot_radar p)) =
       (\<lambda>k. \<lparr>quadrant_name = capitalize k,
              quadrant_blips =
                map (newBlip rings) (filter (\<lambda>b. row_quadrant b = k) scenarioA)\<rparr>) `
         row_quadrant ` set scenarioA \<and>
     blip_isNew (newBlip rings (sampleRow ''a'' ''Adopt'' ''Tools''))"
proof -
  have "\<exists>p. plotRadar ''radar.csv'' scenarioA (Some ''CSV File'') [] = Inr p"
    by (rule plotRadar_four) (simp_all add: sample_defs objectPrototypeKeys_def card_insert_if)
  then obtain p where p: "plotRadar ''radar.csv'' scenarioA (Some ''CSV File'') [] = Inr p" ..
  note inst = isNew_case_insensitive_true [where title = "''radar.csv''" and blips = scenarioA
      and currentRadarName = "Some ''CSV File''" and alternativeRadars = "[]" and p = p]
  from inst [THEN conjunct2, THEN conjunct2, THEN conjunct2, THEN conjunct2, THEN conjunct2,
      THEN conjunct2, THEN conjunct2, THEN mp, OF p]
  obtain rings where r: "buildRingMap scenarioA = Inr rings"
    and q: "set (radar_quadrants (plot_radar p)) =
       (\<lambda>k. \<lparr>quadrant_name = capitalize k,
              quadrant_blips =
                map (newBlip rings) (filter (\<lambda>b. row_quadrant b = k) scenarioA)\<rparr>) `
         row_quadrant ` set scenarioA"
    by (elim exE conjE)
  have "blip_isNew (newBlip rings (sampleRow ''a'' ''Adopt'' ''Tools''))"
    by (simp add: newBlip_def sampleRow_def toLowerCase_def toLowerChar_def)
  with p r q show ?thesis by (intro exI [of _ p] exI [of _ rings] conjI)
qed

text \<open>
  C4, as amended. Source resolution applies this precedence. When \<^verbatim>\<open>DomainName\<close> finds no
  domain in the query string, no ingestion is performed, whatever the \<^verbatim>\<open>sheetId\<close>. When
  it finds one and a \<^verbatim>\<open>sheetId\<close> is present: a \<^verbatim>\<open>sheetId\<close> ending in \<^verbatim>\<open>.csv\<close> selects the
  CSV document; otherwise one ending in \<^verbatim>\<open>.json\<close> selects the JSON file; otherwise, when
  the domain ends in \<^verbatim>\<open>google.com\<close> and the \<^verbatim>\<open>sheetId\<close> is not empty, the Google sheet is
  selected, with the \<^verbatim>\<open>sheetId\<close> and the optional \<^verbatim>\<open>sheetName\<close>; otherwise no ingestion
  is performed and the entry page is shown.
\<close>

theorem source_resolution:
  "(\<not> truthy domainName \<longrightarrow>
      GoogleSheetInput_build flag domainName params = EntryPage (\<not> flag)) \<and>
   (truthy domainName \<and> sheetId params = Some sheet \<and> endsWith sheet ''.csv'' \<longrightarrow>
      GoogleSheetInput_build flag domainName params = CSVDocument sheet) \<and>
   (truthy domainName \<and> sheetId params = Some sheet \<and> \<not> endsWith sheet ''.csv'' \<and>
    endsWith sheet ''.json'' \<longrightarrow>
      GoogleSheetInput_build flag domainName params = JSONFile sheet) \<and>
   (domainName = Some domain \<and> domain \<noteq> [] \<and> sheetId params = Some sheet \<and>
    \<not> endsWith sheet ''.csv'' \<and> \<not> endsWith sheet ''.json'' \<and>
    endsWith domain ''google.com'' \<and> sheet \<noteq> [] \<longrightarrow>
      GoogleSheetInput_build flag domainName params = GoogleSheet sheet (sheetName params)) \<and>
   (domainName = Some domain \<and> domain \<noteq> [] \<and> sheetId params = Some sheet \<and>
    \<not> endsWith sheet ''.csv'' \<and> \<not> endsWith sheet ''.json'' \<and>
    \<not> (endsWith domain ''google.com'' \<and> sheet \<noteq> []) \<longrightarrow>
      GoogleSheetInput_build flag domainName params = EntryPage (\<not> flag))"
  by (cases domainName) (auto simp: GoogleSheetInput_build_def)

theorem source_resolution_witness:
  "GoogleSheetInput_build False None \<lparr>sheetId = Some ''radar.csv'', sheetName = None\<rparr> =
     EntryPage True \<and>
   GoogleSheetInput_build False (Some ''example.com'')
     \<lparr>sheetId = Some ''https://example.com/radar.csv'', sheetName = None\<rparr> =
     CSVDocument ''https://example.com/radar.csv'' \<and>
   GoogleSheetInput_build False (Some ''example.com'')
     \<lparr>sheetId = Some ''https://example.com/radar.json'', sheetName = None\<rparr> =
     JSONFile ''https://example.com/radar.json'' \<and>
   GoogleSheetInput_build False (Some ''docs.google.com'')
     \<lparr>sheetId = Some ''https://docs.google.com/spreadsheets/d/1'', sheetName = Some ''Q1''\<rparr> =
     GoogleSheet ''https://docs.google.com/spreadsheets/d/1'' (Some ''Q1'') \<and>
   GoogleSheetInput_build False (Some ''example.com'')
     \<lparr>sheetId = Some ''https://example.com/radar.txt'', sheetName = None\<rparr> =
     EntryPage True"
  using source_resolution [where domainName = None and flag = False
      and params = "\<lparr>sheetId = Some ''radar.csv'', sheetName = None\<rparr>"]
    source_resolution [where domainName = "Some ''example.com''" and flag = False
      and params = "\<lparr>sheetId = Some ''https://example.com/radar.csv'', sheetName = None\<rparr>"
      and sheet = "''https://example.com/radar.csv''"]
    source_resolution [where domainName = "Some ''example.com''" and flag = False
      and params = "\<lparr>sheetId = Some ''https://example.com/radar.json'', sheetName = None\<rparr>"
      and sheet = "''https://example.com/radar.json''"]
    source_resolution [where domainName = "Some ''docs.google.com''" and flag = False
      and params = "\<lparr>sheetId = Some ''https://docs.google.com/spreadsheets/d/1'',
                      sheetName = Some ''Q1''\<rparr>"
      and sheet = "''https://docs.google.com/spreadsheets/d/1''" and domain = "''docs.google.com''"]
    source_resolution [where domainName = "Some ''example.com''" and flag = False
      and params = "\<lparr>sheetId = Some ''https://example.com/radar.txt'', sheetName = None\<rparr>"
      and sheet = "''https://example.com/radar.txt''" and domain = "''example.com''"]
  by (simp add: endsWith_def)

text \<open>
  C4 as stated fails: with the query \<^verbatim>\<open>?sheetId=radar.csv\<close> the \<^verbatim>\<open>sheetId\<close> ends in
  \<^verbatim>\<open>.csv\<close>, but the query string holds no domain, the guard \<^verbatim>\<open>domainName &&\<close> is false
  and the entry page is shown.
\<close>

theorem csv_without_domain_counterexample:
  "endsWith ''radar.csv'' ''.csv'' \<and>
   GoogleSheetInput_build False None \<lparr>sheetId = Some ''radar.csv'', sheetName = None\<rparr> =
     EntryPage True \<and>
   GoogleSheetInput_build False None \<lparr>sheetId = Some ''radar.csv'', sheetName = None\<rparr> \<noteq>
     CSVDocument ''radar.csv''"
  by (simp add: GoogleSheetInput_build_def endsWith_def)

text \<open>
  C5. When the document does not exist, the run of \<^verbatim>\<open>GoogleSheet.build\<close> is the existence
  probe followed by the error page for the \<^verbatim>\<open>SheetNotFoundError\<close>, which displays the
  message \<^verbatim>\<open>SHEET_NOT_FOUND\<close>; no login is among its events. A login occurs in a run only
  when the document exists, and the run is then the probe followed by \<^verbatim>\<open>authenticate\<close>.
\<close>

theorem not_found_before_authentication:
  "GoogleSheet_build env sheetReference name (validate False apiKeyEnabled) =
     [Validate sheetReference, PlotErrorMessage (SheetNotFoundError SHEET_NOT_FOUND)] \<and>
   plotError (SheetNotFoundError SHEET_NOT_FOUND) = SHEET_NOT_FOUND \<and>
   (\<forall>ev \<in> set (GoogleSheet_build env sheetReference name (validate False apiKeyEnabled)).
      \<not> isLogin ev) \<and>
   ((\<exists>ev \<in> set (GoogleSheet_build env sheetReference name
                     (validate documentExists apiKeyEnabled)). isLogin ev) \<longrightarrow>
      documentExists \<and>
      GoogleSheet_build env sheetReference name (validate documentExists apiKeyEnabled) =
        Validate sheetReference # authenticate env sheetReference name False apiKeyEnabled False)"
  by (simp add: GoogleSheet_build_def validate_def plotError_def)

theorem not_found_before_authentication_witness:
  "GoogleSheet_build sampleEnv (Some ''https://docs.google.com/spreadsheets/d/1'') None
     (validate True False) =
     [Validate (Some ''https://docs.google.com/spreadsheets/d/1''), LoadGoogle, Login False,
      ProcessSheetResponse (Some ''https://docs.google.com/spreadsheets/d/1'') None] \<and>
   GoogleSheet_build sampleEnv (Some ''https://docs.google.com/spreadsheets/d/1'') None
     (validate False False) =
     [Validate (Some ''https://docs.google.com/spreadsheets/d/1''),
      PlotErrorMessage (SheetNotFoundError SHEET_NOT_FOUND)]"
  using not_found_before_authentication [of sampleEnv
      "Some ''https://docs.google.com/spreadsheets/d/1''" None False True]
  by (simp add: GoogleSheet_build_def validate_def authenticate_def sampleEnv_def)

text \<open>
  C6. An error of the sheet request with status 403 brings up the unauthorized page, not
  the generic error page, and the text of that page contains the current identity; an
  error with any other status, or with none, brings up the generic error page for that
  error. The action of the button \<^verbatim>\<open>SWITCH ACCOUNT\<close> logs in with \<^verbatim>\<open>force = true\<close> and,
  once that login has obtained its token, sends the request for the same sheet that the
  first, unforced, authentication sent.
\<close>

theorem unauthorized_and_reauthentication:
  "(status error = Some 403 \<longrightarrow>
      handleError env error = [PlotUnauthorizedErrorMessage (geEmail env)]) \<and>
   (status error \<noteq> Some 403 \<longrightarrow> handleError env error = [PlotErrorMessage error]) \<and>
   (\<exists>before after. unauthorizedMessage (geEmail env) = before @ geEmail env @ after) \<and>
   (loginCompletes env True \<longrightarrow>
      switchAccount env params =
        [LoadGoogle, Login True, ProcessSheetResponse (sheetId params) (sheetName params),
         Callback]) \<and>
   (\<not> loginCompletes env True \<longrightarrow> switchAccount env params = [LoadGoogle, Login True]) \<and>
   (loginCompletes env False \<longrightarrow>
      authenticate env (sheetId params) (sheetName params) False False False =
        [LoadGoogle, Login False, ProcessSheetResponse (sheetId params) (sheetName params)])"
proof -
  have "\<exists>before after. unauthorizedMessage (geEmail env) = before @ geEmail env @ after"
    unfolding unauthorizedMessage_def by (intro exI) (rule refl)
  then show ?thesis
    by (simp add: handleError_def switchAccount_def authenticate_def)
qed

theorem unauthorized_and_reauthentication_witness:
  "handleError sampleEnv (ResponseError 403) = [PlotUnauthorizedErrorMessage ''user@example.com''] \<and>
   handleError sampleEnv (ResponseError 500) = [PlotErrorMessage (ResponseError 500)] \<and>
   switchAccount sampleEnv \<lparr>sheetId = Some ''https://docs.google.com/spreadsheets/d/1'',
                             sheetName = Some ''Q1''\<rparr> =
     [LoadGoogle, Login True,
      ProcessSheetResponse (Some ''https://docs.google.com/spreadsheets/d/1'') (Some ''Q1''),
      Callback]"
  using unauthorized_and_reauthentication [where env = sampleEnv and error = "ResponseError 403"
      and params = "\<lparr>sheetId = Some ''https://docs.google.com/spreadsheets/d/1'',
                      sheetName = Some ''Q1''\<rparr>"]
    unauthorized_and_reauthentication [where env = sampleEnv and error = "ResponseError 500"
      and params = "\<lparr>sheetId = Some ''https://docs.google.com/spreadsheets/d/1'',
                      sheetName = Some ''Q1''\<rparr>"]
  by (simp add: sampleEnv_def)

text \<open>
  C7. In every sheet ingestion that hands a radar over, the alternatives of the radar are
  the complete list of sheet names in their order; its current sheet is the first sheet
  name when the caller gave no sheet name (or an empty one), and the given name otherwise.
  Both are attached without any condition.
\<close>

theorem sheet_names_attached:
  assumes "GraphingRadar p \<in>
      set (fst (createBlipsForProtectedSheet env name documentTitle values sheetNames))"
  shows "radar_alternatives (plot_radar p) = sheetNames \<and>
         (name = None \<and> sheetNames \<noteq> [] \<longrightarrow>
            radar_currentSheet (plot_radar p) = Some (hd sheetNames)) \<and>
         (\<not> truthy name \<longrightarrow>
            radar_currentSheet (plot_radar p) =
              (case sheetNames of [] \<Rightarrow> None | n # _ \<Rightarrow> Some n)) \<and>
         (truthy name \<longrightarrow> radar_currentSheet (plot_radar p) = name)"
proof -
  from sheet_GraphingRadar [OF assms] obtain blips where
    "plotRadar
        (documentTitle @ '' - '' @
           toString (if \<not> truthy name then (case sheetNames of [] \<Rightarrow> None | n # _ \<Rightarrow> Some n)
                     else name))
        blips
        (if \<not> truthy name then (case sheetNames of [] \<Rightarrow> None | n # _ \<Rightarrow> Some n) else name)
        sheetNames = Inr p" ..
  from plotRadar_Inr(2,3) [OF this] show ?thesis
    by (cases sheetNames) auto
qed

theorem sheet_names_attached_witness:
  "\<exists>p. GraphingRadar p \<in>
         set (fst (createBlipsForProtectedSheet sampleEnv None ''Radar'' sampleValues
                     [''Q1'', ''Q2''])) \<and>
       radar_alternatives (plot_radar p) = [''Q1'', ''Q2''] \<and>
       radar_currentSheet (plot_radar p) = Some ''Q1''"
proof -
  from sample_forEach_verify obtain evs where
    "forEach_verify sampleEnv requiredHeaders sampleValues = (evs, None)" ..
  moreover have v: "sampleValues = requiredHeaders # tl sampleValues"
    by (simp add: sampleValues_def)
  ultimately have evs:
    "forEach_verify sampleEnv requiredHeaders (requiredHeaders # tl sampleValues) = (evs, None)"
    by simp
  from sampleValues_plot [of "''Radar - Q1''" "Some ''Q1''" "[''Q1'', ''Q2'']"]
  obtain p where "plotRadar ''Radar - Q1''
         (map (\<lambda>blip. sanitizeForProtectedSheet sampleEnv blip requiredHeaders) (tl sampleValues))
         (Some ''Q1'') [''Q1'', ''Q2''] = Inr p" ..
  then have p: "plotRadar
        (''Radar'' @ '' - '' @
           toString (if \<not> truthy None
                     then (case [''Q1'', ''Q2''] of [] \<Rightarrow> None | n # _ \<Rightarrow> Some n) else None))
        (map (\<lambda>blip. sanitizeForProtectedSheet sampleEnv blip requiredHeaders) (tl sampleValues))
        (if \<not> truthy None then (case [''Q1'', ''Q2''] of [] \<Rightarrow> None | n # _ \<Rightarrow> Some n)
         else None)
        [''Q1'', ''Q2''] = Inr p"
    by simp
  have "fst (createBlipsForProtectedSheet sampleEnv None ''Radar''
               (requiredHeaders # tl sampleValues) [''Q1'', ''Q2'']) =
        evs @ map (\<lambda>blip. SanitizeForProtectedSheet blip requiredHeaders) (tl sampleValues) @
        [PlotRadar
           (''Radar'' @ '' - '' @
              toString (if \<not> truthy None
                        then (case [''Q1'', ''Q2''] of [] \<Rightarrow> None | n # _ \<Rightarrow> Some n)
                        else None)),
         GraphingRadar p]"
    by (rule sheet_success [OF evs p])
  with v have g: "GraphingRadar p \<in>
         set (fst (createBlipsForProtectedSheet sampleEnv None ''Radar'' sampleValues
                     [''Q1'', ''Q2'']))"
    by simp
  from sheet_names_attached [OF g] g show ?thesis
    by (intro exI [of _ p]) simp
qed

text \<open>
  C8, as amended. The seven named failure kinds carry fixed, pairwise distinct messages. The
  error page displays the message of a \<^verbatim>\<open>SheetNotFoundError\<close> unmodified, and the message
  of a \<^verbatim>\<open>MalformedDataError\<close> unmodified after the fixed text
  \<^verbatim>\<open>Oops! We can't find the data\<close>; the unauthorized page displays its own text, which is
  never the message \<^verbatim>\<open>UNAUTHORIZED\<close>.
\<close>

theorem messages_distinct_and_displayed:
  "distinct ExceptionMessages \<and>
   set ExceptionMessages =
     {TOO_MANY_QUADRANTS, LESS_THAN_FOUR_QUADRANTS, TOO_MANY_RINGS, MISSING_HEADERS,
      MISSING_CONTENT, SHEET_NOT_FOUND, UNAUTHORIZED} \<and>
   plotError (SheetNotFoundError m) = m \<and>
   plotError (MalformedDataError m) = ''Oops! We can't find the data'' @ m \<and>
   unauthorizedMessage user \<noteq> UNAUTHORIZED"
proof -
  have "set ExceptionMessages =
     {TOO_MANY_QUADRANTS, LESS_THAN_FOUR_QUADRANTS, TOO_MANY_RINGS, MISSING_HEADERS,
      MISSING_CONTENT, SHEET_NOT_FOUND, UNAUTHORIZED}"
    by (auto simp: ExceptionMessages_def)
  moreover have "plotError (SheetNotFoundError m) = m"
    and "plotError (MalformedDataError m) = ''Oops! We can't find the data'' @ m"
    by (simp_all add: plotError_def)
  moreover have "unauthorizedMessage user \<noteq> UNAUTHORIZED"
    by (simp add: unauthorizedMessage_def UNAUTHORIZED_def)
  ultimately show ?thesis
    using distinct_ExceptionMessages by simp
qed

text \<open>
  C8 as stated fails: for the \<^verbatim>\<open>MalformedDataError\<close> of \<^verbatim>\<open>TOO_MANY_RINGS\<close> the displayed
  text is not the message but the message appended to the fixed text.
\<close>

theorem malformed_message_prefixed_counterexample:
  "plotError (MalformedDataError TOO_MANY_RINGS) = ''Oops! We can't find the dataMore than 4 rings.'' \<and>
   plotError (MalformedDataError TOO_MANY_RINGS) \<noteq> TOO_MANY_RINGS"
  by (simp add: plotError_def TOO_MANY_RINGS_def)

text \<open>
  C9. In each of the three ingestion paths (CSV, JSON, sheet), whenever a run sanitizes a
  row, calls \<^verbatim>\<open>plotRadar\<close> (where the radar is constructed) or hands a radar over, both
  checks of the validator have been called earlier in the run and both have passed. So
  when a check fails, the run sanitizes no row, constructs no radar and hands none over.
  A JSON source without rows and a sheet without rows sanitize nothing.
\<close>

theorem validation_before_sanitization:
  "(\<forall>pre ev post.
      CSVDocument_createBlips env url csv = pre @ ev # post \<and>
      (isSanitize ev \<or> isPlotRadar ev) \<longrightarrow>
        VerifyContent (fst csv) \<in> set pre \<and> VerifyHeaders (fst csv) \<in> set pre \<and>
        verifyContent env (fst csv) = None \<and> verifyHeaders env (fst csv) = None) \<and>
   (verifyContent env (fst csv) \<noteq> None \<or> verifyHeaders env (fst csv) \<noteq> None \<longrightarrow>
      (\<forall>ev \<in> set (CSVDocument_createBlips env url csv).
         \<not> isSanitize ev \<and> \<not> isPlotRadar ev)) \<and>
   (\<forall>pre ev post.
      JSONFile_createBlips env url (first # json) = pre @ ev # post \<and>
      (isSanitize ev \<or> isPlotRadar ev) \<longrightarrow>
        VerifyContent (map fst first) \<in> set pre \<and> VerifyHeaders (map fst first) \<in> set pre \<and>
        verifyContent env (map fst first) = None \<and> verifyHeaders env (map fst first) = None) \<and>
   (verifyContent env (map fst first) \<noteq> None \<or> verifyHeaders env (map fst first) \<noteq> None \<longrightarrow>
      (\<forall>ev \<in> set (JSONFile_createBlips env url (first # json)).
         \<not> isSanitize ev \<and> \<not> isPlotRadar ev)) \<and>
   JSONFile_createBlips env url [] = [PlotErrorMessage TypeError] \<and>
   (\<forall>pre ev post.
      fst (createBlipsForProtectedSheet env name documentTitle (header # all) sheetNames) =
        pre @ ev # post \<and>
      (isSanitize ev \<or> isPlotRadar ev) \<longrightarrow>
        VerifyContent header \<in> set pre \<and> VerifyHeaders header \<in> set pre \<and>
        verifyContent env header = None \<and> verifyHeaders env header = None) \<and>
   (verifyContent env header \<noteq> None \<or> verifyHeaders env header \<noteq> None \<longrightarrow>
      (\<forall>ev \<in> set (fst (createBlipsForProtectedSheet env name documentTitle (header # all)
                         sheetNames)). \<not> isSanitize ev \<and> \<not> isPlotRadar ev)) \<and>
   (\<forall>ev \<in> set (fst (createBlipsForProtectedSheet env name documentTitle [] sheetNames)).
      \<not> isSanitize ev)"
proof (intro conjI allI impI)
  fix pre ev post
  assume "CSVDocument_createBlips env url csv = pre @ ev # post \<and>
      (isSanitize ev \<or> isPlotRadar ev)"
  then have o: "VerifyContent (fst csv) \<in> set pre \<and> VerifyHeaders (fst csv) \<in> set pre \<and>
        verifyContent env (fst csv) = None \<and> verifyHeaders env (fst csv) = None"
    using createBlips_order [of env url "fst csv" "snd csv" "''CSV File''" pre ev post]
    by (simp add: CSVDocument_createBlips_def)
  from o show "VerifyContent (fst csv) \<in> set pre" by simp
  from o show "VerifyHeaders (fst csv) \<in> set pre" by simp
  from o show "verifyContent env (fst csv) = None" by simp
  from o show "verifyHeaders env (fst csv) = None" by simp
next
  assume "verifyContent env (fst csv) \<noteq> None \<or> verifyHeaders env (fst csv) \<noteq> None"
  then show "\<forall>ev \<in> set (CSVDocument_createBlips env url csv).
         \<not> isSanitize ev \<and> \<not> isPlotRadar ev"
    unfolding CSVDocument_createBlips_def by (rule createBlips_failed)
next
  fix pre ev post
  assume "JSONFile_createBlips env url (first # json) = pre @ ev # post \<and>
      (isSanitize ev \<or> isPlotRadar ev)"
  then have o: "VerifyContent (map fst first) \<in> set pre \<and>
        VerifyHeaders (map fst first) \<in> set pre \<and>
        verifyContent env (map fst first) = None \<and> verifyHeaders env (map fst first) = None"
    using createBlips_order [of env url "map fst first" "first # json" "''JSON File''" pre ev post]
    by (simp add: JSONFile_createBlips_def)
  from o show "VerifyContent (map fst first) \<in> set pre" by simp
  from o show "VerifyHeaders (map fst first) \<in> set pre" by simp
  from o show "verifyContent env (map fst first) = None" by simp
  from o show "verifyHeaders env (map fst first) = None" by simp
next
  assume "verifyContent env (map fst first) \<noteq> None \<or> verifyHeaders env (map fst first) \<noteq> None"
  then have "\<forall>ev \<in> set (createBlips env url (map fst first) (first # json) ''JSON File'').
         \<not> isSanitize ev \<and> \<not> isPlotRadar ev"
    by (rule createBlips_failed)
  then show "\<forall>ev \<in> set (JSONFile_createBlips env url (first # json)).
         \<not> isSanitize ev \<and> \<not> isPlotRadar ev"
    by (simp add: JSONFile_createBlips_def)
next
  show "JSONFile_createBlips env url [] = [PlotErrorMessage TypeError]"
    by (simp add: JSONFile_createBlips_def)
next
  fix pre ev post
  assume "fst (createBlipsForProtectedSheet env name documentTitle (header # all) sheetNames) =
        pre @ ev # post \<and> (isSanitize ev \<or> isPlotRadar ev)"
  then have o: "VerifyContent header \<in> set pre \<and> VerifyHeaders header \<in> set pre \<and>
        verifyContent env header = None \<and> verifyHeaders env header = None"
    using sheet_order [of env name documentTitle header all sheetNames pre ev post]
    by simp
  from o show "VerifyContent header \<in> set pre" by simp
  from o show "VerifyHeaders header \<in> set pre" by simp
  from o show "verifyContent env header = None" by simp
  from o show "verifyHeaders env header = None" by simp
next
  assume "verifyContent env header \<noteq> None \<or> verifyHeaders env header \<noteq> None"
  then show "\<forall>ev \<in> set (fst (createBlipsForProtectedSheet env name documentTitle (header # all)
                         sheetNames)). \<not> isSanitize ev \<and> \<not> isPlotRadar ev"
    by (rule sheet_failed)
next
  show "\<forall>ev \<in> set (fst (createBlipsForProtectedSheet env name documentTitle [] sheetNames)).
      \<not> isSanitize ev"
    by (rule sheet_empty)
qed

theorem validation_before_sanitization_witness:
  "(\<exists>post. CSVDocument_createBlips sampleEnv ''https://example.com/radar.csv''
              (requiredHeaders, sampleData) =
            [VerifyContent requiredHeaders, VerifyHeaders requiredHeaders] @
            Sanitize (sampleRaw ''a'' ''Adopt'' ''Tools'') # post) \<and>
   verifyContent sampleEnv requiredHeaders = None \<and>
   verifyHeaders sampleEnv requiredHeaders = None \<and>
   verifyHeaders sampleEnv [''name''] \<noteq> None \<and>
   CSVDocument_createBlips sampleEnv ''https://example.com/radar.csv'' ([''name''], sampleData) =
     [VerifyContent [''name''], VerifyHeaders [''name''],
      PlotErrorMessage (MalformedDataError MISSING_HEADERS)] \<and>
   filter (\<lambda>ev. isSanitize ev \<or> isPlotRadar ev)
     (CSVDocument_createBlips sampleEnv ''https://example.com/radar.csv''
        ([''name''], sampleData)) = []"
proof -
  note inst = validation_before_sanitization [where env = sampleEnv
      and url = "''https://example.com/radar.csv''" and csv = "(requiredHeaders, sampleData)"]
  note fail = validation_before_sanitization [where env = sampleEnv
      and url = "''https://example.com/radar.csv''" and csv = "([''name''], sampleData)"]
  have run: "\<exists>post. CSVDocument_createBlips sampleEnv ''https://example.com/radar.csv''
              (requiredHeaders, sampleData) =
            [VerifyContent requiredHeaders, VerifyHeaders requiredHeaders] @
            Sanitize (sampleRaw ''a'' ''Adopt'' ''Tools'') # post"
    by (simp add: CSVDocument_createBlips_def createBlips_def sample_verified sampleData_def)
  then obtain post where t: "CSVDocument_createBlips sampleEnv ''https://example.com/radar.csv''
              (requiredHeaders, sampleData) =
            [VerifyContent requiredHeaders, VerifyHeaders requiredHeaders] @
            Sanitize (sampleRaw ''a'' ''Adopt'' ''Tools'') # post" ..
  from inst [THEN conjunct1, rule_format,
      of "[VerifyContent requiredHeaders, VerifyHeaders requiredHeaders]"
        "Sanitize (sampleRaw ''a'' ''Adopt'' ''Tools'')" post] t
  have ok: "verifyContent sampleEnv requiredHeaders = None \<and>
      verifyHeaders sampleEnv requiredHeaders = None"
    by simp
  have bad: "verifyHeaders sampleEnv [''name''] \<noteq> None"
    by (simp add: sampleEnv_def requiredHeaders_def)
  from fail [THEN conjunct2, THEN conjunct1] bad
  have none: "filter (\<lambda>ev. isSanitize ev \<or> isPlotRadar ev)
     (CSVDocument_createBlips sampleEnv ''https://example.com/radar.csv''
        ([''name''], sampleData)) = []"
    by (simp add: filter_empty_conv)
  have "CSVDocument_createBlips sampleEnv ''https://example.com/radar.csv'' ([''name''], sampleData) =
     [VerifyContent [''name''], VerifyHeaders [''name''],
      PlotErrorMessage (MalformedDataError MISSING_HEADERS)]"
    by (simp add: CSVDocument_createBlips_def createBlips_def sampleEnv_def requiredHeaders_def)
  with run ok bad none show ?thesis by (intro conjI) simp_all
qed

text \<open>
  C10, as amended. In every CSV or JSON ingestion that hands a radar over, the radar has no
  alternative sheet names, its current sheet name is \<^verbatim>\<open>CSV File\<close> or \<^verbatim>\<open>JSON File\<close>
  respectively, and the title is the final path segment of the decoded URL (the URL itself
  when the decoded URL ends in a separator) with a trailing \<^verbatim>\<open>.csv\<close> removed and then a
  trailing \<^verbatim>\<open>.json\<close> removed: \<^verbatim>\<open>x.json.csv\<close> gives \<^verbatim>\<open>x\<close>, \<^verbatim>\<open>x.csv\<close> gives \<^verbatim>\<open>x\<close>,
  \<^verbatim>\<open>x.json\<close> gives \<^verbatim>\<open>x\<close>, and a segment with neither ending is the title.
\<close>

theorem file_radar_names_and_title:
  "(GraphingRadar p \<in> set (CSVDocument_createBlips env url csv) \<longrightarrow>
      radar_alternatives (plot_radar p) = [] \<and>
      radar_currentSheet (plot_radar p) = Some ''CSV File'' \<and>
      (\<exists>decoded dir segment.
         decodeURIComponent env (replacePlus url) = Some decoded \<and> decoded = dir @ segment \<and>
         (\<forall>c \<in> set segment. \<not> isSeparator c) \<and> (dir = [] \<or> isSeparator (last dir)) \<and>
         plot_title p = stripExtensions (if segment = [] then url else segment))) \<and>
   (GraphingRadar p \<in> set (JSONFile_createBlips env url json) \<longrightarrow>
      radar_alternatives (plot_radar p) = [] \<and>
      radar_currentSheet (plot_radar p) = Some ''JSON File'' \<and>
      (\<exists>decoded dir segment.
         decodeURIComponent env (replacePlus url) = Some decoded \<and> decoded = dir @ segment \<and>
         (\<forall>c \<in> set segment. \<not> isSeparator c) \<and> (dir = [] \<or> isSeparator (last dir)) \<and>
         plot_title p = stripExtensions (if segment = [] then url else segment))) \<and>
   stripExtensions (b @ ''.json.csv'') = b \<and>
   (\<not> endsWith b ''.json'' \<longrightarrow> stripExtensions (b @ ''.csv'') = b) \<and>
   stripExtensions (b @ ''.json'') = b \<and>
   (\<not> endsWith t ''.csv'' \<and> \<not> endsWith t ''.json'' \<longrightarrow> stripExtensions t = t)"
proof -
  have gen: "radar_alternatives (plot_radar p) = [] \<and>
      radar_currentSheet (plot_radar p) = Some current \<and>
      (\<exists>decoded dir segment.
         decodeURIComponent env (replacePlus url) = Some decoded \<and> decoded = dir @ segment \<and>
         (\<forall>c \<in> set segment. \<not> isSeparator c) \<and> (dir = [] \<or> isSeparator (last dir)) \<and>
         plot_title p = stripExtensions (if segment = [] then url else segment))"
    if "GraphingRadar p \<in> set (createBlips env url columnNames data current)"
    for columnNames data current
  proof -
    from createBlips_GraphingRadar [OF that] obtain fileName where
      f: "FileName env url = Inr fileName"
      and r: "plotRadar fileName (map (sanitize env) data) (Some current) [] = Inr p"
      by (elim exE conjE)
    from FileName_segment [OF f] obtain decoded dir segment where
      "decodeURIComponent env (replacePlus url) = Some decoded" "decoded = dir @ segment"
      "\<forall>c \<in> set segment. \<not> isSeparator c" "dir = [] \<or> isSeparator (last dir)"
      "fileName = (if segment = [] then url else segment)"
      by (elim exE conjE)
    moreover note plotRadar_Inr(1,2,3) [OF r]
    ultimately show ?thesis by (intro conjI exI [of _ decoded] exI [of _ dir] exI [of _ segment]) simp_all
  qed
  have csv: "GraphingRadar p \<in> set (CSVDocument_createBlips env url csv) \<longrightarrow>
      radar_alternatives (plot_radar p) = [] \<and>
      radar_currentSheet (plot_radar p) = Some ''CSV File'' \<and>
      (\<exists>decoded dir segment.
         decodeURIComponent env (replacePlus url) = Some decoded \<and> decoded = dir @ segment \<and>
         (\<forall>c \<in> set segment. \<not> isSeparator c) \<and> (dir = [] \<or> isSeparator (last dir)) \<and>
         plot_title p = stripExtensions (if segment = [] then url else segment))"
    unfolding CSVDocument_createBlips_def by (intro impI gen)
  have json: "GraphingRadar p \<in> set (JSONFile_createBlips env url json) \<longrightarrow>
      radar_alternatives (plot_radar p) = [] \<and>
      radar_currentSheet (plot_radar p) = Some ''JSON File'' \<and>
      (\<exists>decoded dir segment.
         decodeURIComponent env (replacePlus url) = Some decoded \<and> decoded = dir @ segment \<and>
         (\<forall>c \<in> set segment. \<not> isSeparator c) \<and> (dir = [] \<or> isSeparator (last dir)) \<and>
         plot_title p = stripExtensions (if segment = [] then url else segment))"
  proof (cases json)
    case Nil
    then show ?thesis by (simp add: JSONFile_createBlips_def)
  next
    case (Cons first rest)
    then show ?thesis
      unfolding JSONFile_createBlips_def by (simp only: list.case) (intro impI gen)
  qed
  from csv json show ?thesis
    using stripExtensions_json_csv [of b] stripExtensions_csv [of b] stripExtensions_json [of b]
      stripExtensions_other [of t]
    by (intro conjI impI) simp_all
qed

theorem file_radar_names_and_title_witness:
  "(\<exists>p. GraphingRadar p \<in>
          set (CSVDocument_createBlips sampleEnv ''https://example.com/radar.csv''
                 (requiredHeaders, sampleData)) \<and>
        radar_alternatives (plot_radar p) = [] \<and>
        radar_currentSheet (plot_radar p) = Some ''CSV File'' \<and>
        plot_title p = ''radar'') \<and>
   (\<exists>p. GraphingRadar p \<in>
          set (JSONFile_createBlips sampleEnv ''https://example.com/radar.json'' sampleData) \<and>
        radar_alternatives (plot_radar p) = [] \<and>
        radar_currentSheet (plot_radar p) = Some ''JSON File'' \<and>
        plot_title p = ''radar'')"
proof (intro conjI)
  from sampleData_plot [of "''radar.csv''" "Some ''CSV File''" "[]"]
  obtain p where p: "plotRadar ''radar.csv'' (map (sanitize sampleEnv) sampleData)
      (Some ''CSV File'') [] = Inr p" ..
  have "CSVDocument_createBlips sampleEnv ''https://example.com/radar.csv''
          (requiredHeaders, sampleData) =
        VerifyContent requiredHeaders # VerifyHeaders requiredHeaders # map Sanitize sampleData @
        [PlotRadar ''radar.csv'', GraphingRadar p]"
    unfolding CSVDocument_createBlips_def fst_conv snd_conv
    by (rule createBlips_success [OF sample_verified sample_FileName(1) p])
  then have g: "GraphingRadar p \<in>
          set (CSVDocument_createBlips sampleEnv ''https://example.com/radar.csv''
                 (requiredHeaders, sampleData))"
    by simp
  have "plot_title p = ''radar''"
    using plotRadar_Inr(1) [OF p] by (simp add: stripExtensions_def endsWith_def)
  with g file_radar_names_and_title [where p = p and env = sampleEnv
      and url = "''https://example.com/radar.csv''" and csv = "(requiredHeaders, sampleData)"]
  show "\<exists>p. GraphingRadar p \<in>
          set (CSVDocument_createBlips sampleEnv ''https://example.com/radar.csv''
                 (requiredHeaders, sampleData)) \<and>
        radar_alternatives (plot_radar p) = [] \<and>
        radar_currentSheet (plot_radar p) = Some ''CSV File'' \<and>
        plot_title p = ''radar''"
    by (intro exI [of _ p]) simp
next
  from sampleData_plot [of "''radar.json''" "Some ''JSON File''" "[]"]
  obtain p where p: "plotRadar ''radar.json'' (map (sanitize sampleEnv) sampleData)
      (Some ''JSON File'') [] = Inr p" ..
  have keys: "map fst (hd sampleData) = requiredHeaders"
    by (simp add: sampleData_def sampleRaw_def requiredHeaders_def)
  have "createBlips sampleEnv ''https://example.com/radar.json'' requiredHeaders sampleData
          ''JSON File'' =
        VerifyContent requiredHeaders # VerifyHeaders requiredHeaders # map Sanitize sampleData @
        [PlotRadar ''radar.json'', GraphingRadar p]"
    by (rule createBlips_success [OF sample_verified sample_FileName(2) p])
  moreover have "JSONFile_createBlips sampleEnv ''https://example.com/radar.json'' sampleData =
      createBlips sampleEnv ''https://example.com/radar.json'' (map fst (hd sampleData)) sampleData
        ''JSON File''"
    by (simp add: JSONFile_createBlips_def sampleData_def)
  ultimately have g: "GraphingRadar p \<in>
          set (JSONFile_createBlips sampleEnv ''https://example.com/radar.json'' sampleData)"
    by (simp add: keys)
  have "plot_title p = ''radar''"
    using plotRadar_Inr(1) [OF p] by (simp add: stripExtensions_def endsWith_def)
  with g file_radar_names_and_title [where p = p and env = sampleEnv
      and url = "''https://example.com/radar.json''" and json = sampleData]
  show "\<exists>p. GraphingRadar p \<in>
          set (JSONFile_createBlips sampleEnv ''https://example.com/radar.json'' sampleData) \<and>
        radar_alternatives (plot_radar p) = [] \<and>
        radar_currentSheet (plot_radar p) = Some ''JSON File'' \<and>
        plot_title p = ''radar''"
    by (intro exI [of _ p]) simp
qed

text \<open>
  C10 as stated fails: for the URL \<^verbatim>\<open>https://example.com/radar.json.csv\<close> the final path
  segment without its trailing \<^verbatim>\<open>.csv\<close> is \<^verbatim>\<open>radar.json\<close>, and the title is \<^verbatim>\<open>radar\<close>.
\<close>

theorem both_extensions_removed_counterexample:
  "titles (CSVDocument_createBlips sampleEnv ''https://example.com/radar.json.csv''
             (requiredHeaders, sampleData)) = [''radar''] \<and>
   titles (CSVDocument_createBlips sampleEnv ''https://example.com/radar.json.csv''
             (requiredHeaders, sampleData)) \<noteq> [''radar.json'']"
proof -
  from sampleData_plot [of "''radar.json.csv''" "Some ''CSV File''" "[]"]
  obtain p where p: "plotRadar ''radar.json.csv'' (map (sanitize sampleEnv) sampleData)
      (Some ''CSV File'') [] = Inr p" ..
  have "CSVDocument_createBlips sampleEnv ''https://example.com/radar.json.csv''
          (requiredHeaders, sampleData) =
        VerifyContent requiredHeaders # VerifyHeaders requiredHeaders # map Sanitize sampleData @
        [PlotRadar ''radar.json.csv'', GraphingRadar p]"
    unfolding CSVDocument_createBlips_def fst_conv snd_conv
    by (rule createBlips_success [OF sample_verified sample_FileName(3) p])
  then have "titles (CSVDocument_createBlips sampleEnv ''https://example.com/radar.json.csv''
             (requiredHeaders, sampleData)) = [plot_title p]"
    by (simp add: titles_def sampleData_def)
  moreover have "plot_title p = ''radar''"
    using plotRadar_Inr(1) [OF p] by (simp add: stripExtensions_def endsWith_def)
  ultimately show ?thesis by simp
qed

end
